theory Spec2Isabelle
  imports Main
begin

section \<open>Data model\<close>

text \<open>
  The health worker of \<^verbatim>\<open>internal/health/worker.go\<close>, embedded as state-passing
  functions. Wall-clock instants and durations are integers counting milliseconds.
  The counters of a health record are Go \<^verbatim>\<open>int\<close>s, modelled as \<^typ>\<open>int\<close>; the one
  piece of arithmetic the worker itself does on them, \<^verbatim>\<open>MaxRetries-1\<close>, wraps as
  64-bit signed arithmetic does, and that is written out with \<open>int64\<close>.
\<close>

type_synonym instant = int

text \<open>
  The value a 64-bit signed result has after wrapping: the identity between
  \<open>-2^63\<close> and \<open>2^63 - 1\<close>.
\<close>

definition int64 :: "int \<Rightarrow> int" where
  "int64 x = (x + 9223372036854775808) mod 18446744073709551616 - 9223372036854775808"

text \<open>
  Modelled from the spec: the status constants belong to package \<^verbatim>\<open>database\<close>, which
  is outside the sources verified here (the worker names \<^verbatim>\<open>HealthStatusPending\<close> and
  \<^verbatim>\<open>HealthStatusRepairTriggered\<close>); the six statuses are those of section 3.
\<close>

datatype HealthStatus =
    HealthStatusPending
  | HealthStatusChecking
  | HealthStatusHealthy
  | HealthStatusCorrupted
  | HealthStatusRepairTriggered
  | HealthStatusPermanentlyCorrupted

text \<open>
  Modelled from the spec: \<^verbatim>\<open>database.FileHealth\<close> is declared outside the sources verified here.
  Its fields are the ones the worker reads (\<^verbatim>\<open>FilePath\<close>, \<^verbatim>\<open>Status\<close>,
  \<^verbatim>\<open>SourceNzbPath\<close>, \<^verbatim>\<open>LibraryPath\<close>, \<^verbatim>\<open>ReleaseDate\<close>, \<^verbatim>\<open>CreatedAt\<close> and the four
  counters) and the three that section 3 adds for the store to maintain (last error, last
  check, schedule).
\<close>

record FileHealth =
  FilePath :: string
  Status :: HealthStatus
  SourceNzbPath :: "string option"
  LibraryPath :: "string option"
  ReleaseDate :: "instant option"
  CreatedAt :: instant
  RetryCount :: int
  MaxRetries :: int
  RepairRetryCount :: int
  MaxRepairRetries :: int
  LastError :: "string option"
  LastChecked :: "instant option"
  ScheduledCheckAt :: "instant option"

text \<open>
  Every error value the worker returns. \<open>Wrapped msg e\<close> is
  \<^verbatim>\<open>fmt.Errorf("msg: %w", e)\<close>; \<open>NilPointerPanic\<close> is the run-time panic of a nil
  dereference, which is not an error value in Go and is therefore never wrapped.
\<close>

datatype error =
    StoreError string
  | ContextCanceled
  | RecordNotFound string
  | NoLibraryPath string
  | NoActiveCheck string
  | MetadataError string
  | RescanError string
  | AlreadyRunning
  | NotRunning
  | Wrapped string error
  | NilPointerPanic

text \<open>\<^verbatim>\<open>err.Error()\<close>\<close>

primrec error_text :: "error \<Rightarrow> string" where
  "error_text (StoreError m) = m"
| "error_text ContextCanceled = ''context canceled''"
| "error_text (RecordNotFound p) = ''file health record not found for file: '' @ p"
| "error_text (NoLibraryPath p) =
     ''no library path found for file: '' @ p @ '', trigger a manual library sync to fix this''"
| "error_text (NoActiveCheck p) = ''no active health check found for file: '' @ p"
| "error_text (MetadataError m) = m"
| "error_text (RescanError m) = m"
| "error_text AlreadyRunning = ''health worker already running''"
| "error_text NotRunning = ''health worker is not running''"
| "error_text (Wrapped m e) = m @ '': '' @ error_text e"
| "error_text NilPointerPanic = ''runtime error: invalid memory address or nil pointer dereference''"

section \<open>The health store\<close>

text \<open>
  Modelled from the spec: \<^verbatim>\<open>database.HealthRepository\<close> is outside the sources verified here;
  the operations the worker calls are modelled from section 4.1 of the specification
  (\<open>set_repair_triggered\<close> is never called by the worker and is left out). The table is
  a list of rows, one per file path; \<open>outage\<close> is the failure of the persistence backend:
  while it is set, every operation returns a store error. The two defaults initialise the
  bounds of a row that the general write path inserts.
\<close>

record HealthRepository =
  rows :: "FileHealth list"
  outage :: "string option"
  DefaultMaxRetries :: int
  DefaultMaxRepairRetries :: int

text \<open>
  Modelled from the spec: the row of a path, a change applied to the row of a path, and
  a write that fails while the store is down.
\<close>

definition find_row :: "string \<Rightarrow> FileHealth list \<Rightarrow> FileHealth option" where
  "find_row p rs = find (\<lambda>r. FilePath r = p) rs"

definition update_row ::
  "string \<Rightarrow> (FileHealth \<Rightarrow> FileHealth) \<Rightarrow> FileHealth list \<Rightarrow> FileHealth list" where
  "update_row p f rs = map (\<lambda>r. if FilePath r = p then f r else r) rs"

definition write_row ::
  "HealthRepository \<Rightarrow> string \<Rightarrow> (FileHealth \<Rightarrow> FileHealth) \<Rightarrow> error + HealthRepository" where
  "write_row repo p f =
     (case outage repo of
        Some m \<Rightarrow> Inl (StoreError m)
      | None \<Rightarrow> Inr (repo\<lparr>rows := update_row p f (rows repo)\<rparr>))"

text \<open>Modelled from the spec: \<open>get(file_path) -> record | none\<close>.\<close>

definition GetFileHealth :: "HealthRepository \<Rightarrow> string \<Rightarrow> error + FileHealth option" where
  "GetFileHealth repo p =
     (case outage repo of
        Some m \<Rightarrow> Inl (StoreError m)
      | None \<Rightarrow> Inr (find_row p (rows repo)))"

text \<open>
  Modelled from the spec: what the general write path does to an existing row. The
  counters are reset only on request.
\<close>

definition rewritten ::
  "HealthStatus \<Rightarrow> string option \<Rightarrow> string option \<Rightarrow> instant \<Rightarrow> bool \<Rightarrow> FileHealth \<Rightarrow> FileHealth" where
  "rewritten st lastErr sourceRef due resetCounters r =
     r\<lparr>Status := st, LastError := lastErr, SourceNzbPath := sourceRef,
       ScheduledCheckAt := Some due,
       RetryCount := (if resetCounters then 0 else RetryCount r),
       RepairRetryCount := (if resetCounters then 0 else RepairRetryCount r)\<rparr>"

text \<open>
  Modelled from the spec: \<open>update(file_path, status, last_error, source_ref,
  scheduled_check_at, reset_counters)\<close>, the general write path. It inserts a row when
  the path has none (the worker's add-to-watchlist operation relies on that), with
  counters zero; an absent schedule means "due now", as the lifecycle paragraph of
  section 3 says of a new record.
\<close>

definition UpdateFileHealth ::
  "HealthRepository \<Rightarrow> instant \<Rightarrow> string \<Rightarrow> HealthStatus \<Rightarrow> string option \<Rightarrow> string option
     \<Rightarrow> instant option \<Rightarrow> bool \<Rightarrow> error + HealthRepository" where
  "UpdateFileHealth repo now p st lastErr sourceRef sched resetCounters =
     (case outage repo of
        Some m \<Rightarrow> Inl (StoreError m)
      | None \<Rightarrow>
          (let due = (case sched of None \<Rightarrow> now | Some t \<Rightarrow> t) in
           case find_row p (rows repo) of
             None \<Rightarrow>
               Inr (repo\<lparr>rows := rows repo @
                 [\<lparr>FilePath = p, Status = st, SourceNzbPath = sourceRef, LibraryPath = None,
                   ReleaseDate = None, CreatedAt = now, RetryCount = 0,
                   MaxRetries = DefaultMaxRetries repo, RepairRetryCount = 0,
                   MaxRepairRetries = DefaultMaxRepairRetries repo, LastError = lastErr,
                   LastChecked = None, ScheduledCheckAt = Some due\<rparr>]\<rparr>)
           | Some _ \<Rightarrow>
               Inr (repo\<lparr>rows :=
                 update_row p (rewritten st lastErr sourceRef due resetCounters) (rows repo)\<rparr>)))"

text \<open>
  Modelled from the spec: \<open>set_checking(file_path)\<close>, \<open>Pending | Corrupted \<rightarrow> Checking\<close>;
  fails if the current status is Healthy or PermanentlyCorrupted.
\<close>

definition SetFileChecking :: "HealthRepository \<Rightarrow> string \<Rightarrow> error + HealthRepository" where
  "SetFileChecking repo p =
     (case outage repo of
        Some m \<Rightarrow> Inl (StoreError m)
      | None \<Rightarrow>
          (case find_row p (rows repo) of
             None \<Rightarrow> Inr repo
           | Some r \<Rightarrow>
               if Status r = HealthStatusHealthy \<or> Status r = HealthStatusPermanentlyCorrupted
               then Inl (StoreError ''cannot set checking status'')
               else write_row repo p (\<lambda>r. r\<lparr>Status := HealthStatusChecking\<rparr>)))"

text \<open>
  Modelled from the spec: \<open>mark_healthy(file_path, next_scheduled_at)\<close> sets
  status=Healthy, both retry counters to zero, updates \<open>last_checked\<close> and
  \<open>scheduled_check_at\<close>.
\<close>

definition marked_healthy :: "instant \<Rightarrow> instant \<Rightarrow> FileHealth \<Rightarrow> FileHealth" where
  "marked_healthy now nextCheck r =
     r\<lparr>Status := HealthStatusHealthy, RetryCount := 0, RepairRetryCount := 0,
       LastChecked := Some now, ScheduledCheckAt := Some nextCheck\<rparr>"

text \<open>Modelled from the spec: \<open>mark_healthy\<close> on the row of the path.\<close>

definition MarkAsHealthy ::
  "HealthRepository \<Rightarrow> instant \<Rightarrow> string \<Rightarrow> instant \<Rightarrow> error + HealthRepository" where
  "MarkAsHealthy repo now p nextCheck = write_row repo p (marked_healthy now nextCheck)"

text \<open>
  Modelled from the spec: retry backoff \<open>min(base * 2^(retry_count), cap)\<close> with
  base = 1 minute and cap = 1 hour.
\<close>

definition backoff :: "int \<Rightarrow> int" where
  "backoff n = min (60000 * 2 ^ nat n) 3600000"

text \<open>
  Modelled from the spec: \<open>increment_retry(file_path, last_error)\<close>:
  \<open>retry_count += 1\<close>, \<open>last_checked = now\<close>,
  \<open>scheduled_check_at = now + backoff(retry_count)\<close>; status stays Corrupted
  (scenario S2 of the specification: after the first failing cycle the status is
  Corrupted).
\<close>

definition retry_incremented :: "instant \<Rightarrow> string option \<Rightarrow> FileHealth \<Rightarrow> FileHealth" where
  "retry_incremented now lastErr r =
     r\<lparr>Status := HealthStatusCorrupted, RetryCount := RetryCount r + 1,
       LastError := lastErr, LastChecked := Some now,
       ScheduledCheckAt := Some (now + backoff (RetryCount r + 1))\<rparr>"

text \<open>Modelled from the spec: \<open>increment_retry\<close> on the row of the path.\<close>

definition IncrementRetryCount ::
  "HealthRepository \<Rightarrow> instant \<Rightarrow> string \<Rightarrow> string option \<Rightarrow> error + HealthRepository" where
  "IncrementRetryCount repo now p lastErr = write_row repo p (retry_incremented now lastErr)"

text \<open>
  Modelled from the spec: \<open>increment_repair_retry(file_path, last_error)\<close>, analogous,
  on \<open>repair_retry_count\<close>; the status stays what it is.
\<close>

definition repair_retry_incremented ::
  "instant \<Rightarrow> string option \<Rightarrow> FileHealth \<Rightarrow> FileHealth" where
  "repair_retry_incremented now lastErr r =
     r\<lparr>RepairRetryCount := RepairRetryCount r + 1,
       LastError := lastErr, LastChecked := Some now,
       ScheduledCheckAt := Some (now + backoff (RepairRetryCount r + 1))\<rparr>"

text \<open>Modelled from the spec: \<open>increment_repair_retry\<close> on the row of the path.\<close>

definition IncrementRepairRetryCount ::
  "HealthRepository \<Rightarrow> instant \<Rightarrow> string \<Rightarrow> string option \<Rightarrow> error + HealthRepository" where
  "IncrementRepairRetryCount repo now p lastErr =
     write_row repo p (repair_retry_incremented now lastErr)"

text \<open>
  Modelled from the spec: \<open>mark_permanently_corrupted(file_path, last_error)\<close>, the
  terminal transition.
\<close>

definition permanently_corrupted :: "string option \<Rightarrow> FileHealth \<Rightarrow> FileHealth" where
  "permanently_corrupted lastErr r =
     r\<lparr>Status := HealthStatusPermanentlyCorrupted, LastError := lastErr\<rparr>"

text \<open>
  Modelled from the spec: \<^verbatim>\<open>MarkAsCorrupted\<close>, called when the repair retries are
  exhausted, is \<open>mark_permanently_corrupted\<close> (last row of the transition table of
  section 4.4).
\<close>

definition MarkAsCorrupted ::
  "HealthRepository \<Rightarrow> string \<Rightarrow> string option \<Rightarrow> error + HealthRepository" where
  "MarkAsCorrupted repo p lastErr = write_row repo p (permanently_corrupted lastErr)"

text \<open>
  Modelled from the spec: \<^verbatim>\<open>SetCorrupted\<close>, called when the rescan request is refused,
  sets the status to PermanentlyCorrupted with the error (step 5 of the trigger-repair
  procedure).
\<close>

definition SetCorrupted ::
  "HealthRepository \<Rightarrow> string \<Rightarrow> string option \<Rightarrow> error + HealthRepository" where
  "SetCorrupted repo p lastErr = write_row repo p (permanently_corrupted lastErr)"

text \<open>
  Modelled from the spec: \<open>reset_all_checking()\<close>, the startup reconciliation:
  Checking \<rightarrow> Pending for every record.
\<close>

definition ResetFileAllChecking :: "HealthRepository \<Rightarrow> error + HealthRepository" where
  "ResetFileAllChecking repo =
     (case outage repo of
        Some m \<Rightarrow> Inl (StoreError m)
      | None \<Rightarrow>
          Inr (repo\<lparr>rows :=
            map (\<lambda>r. if Status r = HealthStatusChecking
                      then r\<lparr>Status := HealthStatusPending\<rparr> else r) (rows repo)\<rparr>))"

text \<open>
  Modelled from the spec: the sort key of the due query, and "due": the schedule is set
  and not later than now.
\<close>

definition scheduled_or_zero :: "FileHealth \<Rightarrow> instant" where
  "scheduled_or_zero r = (case ScheduledCheckAt r of None \<Rightarrow> 0 | Some t \<Rightarrow> t)"

definition is_due :: "instant \<Rightarrow> FileHealth \<Rightarrow> bool" where
  "is_due now r = (case ScheduledCheckAt r of None \<Rightarrow> False | Some t \<Rightarrow> t \<le> now)"

text \<open>
  Modelled from the spec: \<open>fetch_due_for_check(limit)\<close>: records whose
  \<open>scheduled_check_at \<le> now\<close> and status in {Pending, Corrupted}, ordered by
  \<open>scheduled_check_at\<close> ascending, bounded to \<open>limit\<close>.
\<close>

definition GetUnhealthyFiles ::
  "HealthRepository \<Rightarrow> instant \<Rightarrow> int \<Rightarrow> error + FileHealth list" where
  "GetUnhealthyFiles repo now limit =
     (case outage repo of
        Some m \<Rightarrow> Inl (StoreError m)
      | None \<Rightarrow>
          Inr (take (nat limit) (sort_key scheduled_or_zero
            (filter (\<lambda>r. is_due now r \<and>
               (Status r = HealthStatusPending \<or> Status r = HealthStatusCorrupted)) (rows repo)))))"

text \<open>
  Modelled from the spec: \<open>fetch_due_for_repair(limit)\<close>: records with
  status=RepairTriggered where \<open>repair_retry_count < max_repair_retries\<close> and
  \<open>scheduled_check_at \<le> now\<close>.
\<close>

definition GetFilesForRepairNotification ::
  "HealthRepository \<Rightarrow> instant \<Rightarrow> int \<Rightarrow> error + FileHealth list" where
  "GetFilesForRepairNotification repo now limit =
     (case outage repo of
        Some m \<Rightarrow> Inl (StoreError m)
      | None \<Rightarrow>
          Inr (take (nat limit)
            (filter (\<lambda>r. Status r = HealthStatusRepairTriggered \<and>
               RepairRetryCount r < MaxRepairRetries r \<and> is_due now r) (rows repo))))"

section \<open>The scheduler\<close>

text \<open>
  Modelled from the spec: \<open>calculateNextCheck\<close> is outside the sources verified here; this
  is the curve of section 4.2 (\<open>Scheduler.next_check_at\<close>).
\<close>

definition calculateNextCheck :: "instant \<Rightarrow> instant \<Rightarrow> instant" where
  "calculateNextCheck releaseDate now =
     (let age = (if now < releaseDate then 0 else now - releaseDate) in
      if age < 24 * 3600000 then now + 3600000
      else if age < 7 * 24 * 3600000 then now + 6 * 3600000
      else if age < 30 * 24 * 3600000 then now + 24 * 3600000
      else now + 7 * 24 * 3600000)"

section \<open>The worker and its collaborators\<close>

text \<open>
  The event a check returns. Its declaration (package \<^verbatim>\<open>health\<close>) is outside the
  sources verified here; the worker reads \<^verbatim>\<open>Type\<close>, \<^verbatim>\<open>FilePath\<close> and \<^verbatim>\<open>Error\<close> and names three
  event types; \<open>EventTypeOther\<close> stands for any other, which the handler's switch
  ignores. Of the configuration the worker reads the two health settings. The 64-bit
  statistics counters only ever grow by one per event and are modelled as \<^typ>\<open>int\<close>.
\<close>

datatype EventType =
    EventTypeFileHealthy
  | EventTypeFileCorrupted
  | EventTypeCheckFailed
  | EventTypeOther

record HealthEvent =
  Type :: EventType
  EventFilePath :: string
  Error :: "string option"

record Config =
  CheckIntervalSeconds :: int
  MaxConcurrentJobs :: "int option"

datatype WorkerStatus =
    WorkerStatusStopped
  | WorkerStatusStarting
  | WorkerStatusRunning
  | WorkerStatusStopping

record WorkerStats =
  StatsStatus :: WorkerStatus
  LastRunTime :: "instant option"
  NextRunTime :: "instant option"
  TotalRunsCompleted :: int
  TotalFilesChecked :: int
  TotalFilesHealthy :: int
  TotalFilesCorrupted :: int
  CurrentRunStartTime :: "instant option"
  CurrentRunFilesChecked :: int
  StatsLastError :: "string option"
  ErrorCount :: int

text \<open>
  A context is the chain of cancel handles it descends from; it is done once one of
  them has been invoked (deadlines are not modelled).
\<close>

type_synonym ctx = "nat list"

text \<open>
  The worker's own fields (\<open>healthRepo\<close>, \<open>config\<close> for what \<^verbatim>\<open>configGetter()\<close>
  returns, \<open>status\<close>, \<open>running\<close>, \<open>cycleRunning\<close>, \<open>activeChecks\<close>, \<open>stats\<close>),
  followed by the part of the
  world its code acts on: the wall clock, the cancel handles already invoked, the next
  fresh handle, and the trace of calls made to the collaborators (prober, rescanner,
  notifier, the store's batch queries) and of entries into the repair procedure.
\<close>

record HealthWorker =
  healthRepo :: HealthRepository
  config :: Config
  status :: WorkerStatus
  running :: bool
  cycleRunning :: bool
  activeChecks :: "string \<rightharpoonup> nat"
  stats :: WorkerStats
  clock :: instant
  cancelled :: "nat set"
  next_handle :: nat
  probe_calls :: "string list"
  rescan_calls :: "string list"
  notify_calls :: "(string \<times> EventType) list"
  fetch_calls :: nat
  repair_log :: "string list"

text \<open>
  What other goroutines do while a probe is in flight: an operator cancelling a check,
  or the owner of a context cancelling it.
\<close>

datatype operator_call = CallCancelHealthCheck string | CallCancelContext nat

text \<open>
  One run of the prober (\<^verbatim>\<open>HealthChecker.CheckFile\<close>, an external collaborator): its
  outcome, how long it takes, and what happens elsewhere meanwhile.
\<close>

record ProbeRun =
  outcome :: EventType
  failure :: "string option"
  took :: int
  meanwhile :: "operator_call list"

text \<open>
  The collaborators: the prober, the rescanner (\<^verbatim>\<open>arrsService.TriggerFileRescan\<close>,
  \<open>None\<close> for success) and the metadata service (\<^verbatim>\<open>metadataService.UpdateFileStatus\<close>).
\<close>

record Collaborators =
  probe :: "string \<Rightarrow> ProbeRun"
  rescan :: "string \<Rightarrow> string option"
  metadata_update :: "string \<Rightarrow> string option"

definition ctx_done :: "HealthWorker \<Rightarrow> ctx \<Rightarrow> bool" where
  "ctx_done hw c = list_ex (\<lambda>h. h \<in> cancelled hw) c"

definition updateStats :: "(WorkerStats \<Rightarrow> WorkerStats) \<Rightarrow> HealthWorker \<Rightarrow> HealthWorker" where
  "updateStats updateFunc hw = hw\<lparr>stats := updateFunc (stats hw)\<rparr>"

text \<open>
  \<^verbatim>\<open>fmt.Errorf("msg: %w", err)\<close> on the way out of a function; a panic unwinds through
  the caller as it is.
\<close>

definition propagate :: "string \<Rightarrow> error \<Rightarrow> error" where
  "propagate msg e = (if e = NilPointerPanic then NilPointerPanic else Wrapped msg e)"

text \<open>
  \<^verbatim>\<open>time.Duration(intervalSeconds) * time.Second\<close> is a 64-bit count of nanoseconds
  and wraps; the result is given in milliseconds, rounded down.
\<close>

definition getCheckInterval :: "Config \<Rightarrow> int" where
  "getCheckInterval cfg =
     (if CheckIntervalSeconds cfg \<le> 0 then 5 * 1000
      else int64 (CheckIntervalSeconds cfg * 1000000000) div 1000000)"

definition getMaxConcurrentJobs :: "Config \<Rightarrow> int" where
  "getMaxConcurrentJobs cfg =
     (case MaxConcurrentJobs cfg of
        Some n \<Rightarrow> if n > 0 then n else 4
      | None \<Rightarrow> 4)"

definition CancelHealthCheck :: "string \<Rightarrow> HealthWorker \<Rightarrow> (error + unit) \<times> HealthWorker" where
  "CancelHealthCheck filePath hw =
     (case activeChecks hw filePath of
        None \<Rightarrow> (Inl (NoActiveCheck filePath), hw)
      | Some cancelFunc \<Rightarrow>
          (let hw1 = hw\<lparr>cancelled := insert cancelFunc (cancelled hw),
                         activeChecks := (activeChecks hw)(filePath := None)\<rparr> in
           case UpdateFileHealth (healthRepo hw1) (clock hw1) filePath HealthStatusPending
                  None None None False of
             Inl e \<Rightarrow> (Inl (Wrapped ''failed to update file status after cancellation'' e), hw1)
           | Inr repo \<Rightarrow> (Inr (), hw1\<lparr>healthRepo := repo\<rparr>)))"

primrec concurrently :: "operator_call \<Rightarrow> HealthWorker \<Rightarrow> HealthWorker" where
  "concurrently (CallCancelHealthCheck p) hw = snd (CancelHealthCheck p hw)"
| "concurrently (CallCancelContext h) hw = hw\<lparr>cancelled := insert h (cancelled hw)\<rparr>"

text \<open>
  \<^verbatim>\<open>hw.healthChecker.CheckFile(checkCtx, filePath)\<close>: the call is recorded, the clock
  advances by the probe's duration, the concurrent operations take effect, and the
  event for this path comes back.
\<close>

definition CheckFile ::
  "Collaborators \<Rightarrow> ctx \<Rightarrow> string \<Rightarrow> HealthWorker \<Rightarrow> HealthEvent \<times> HealthWorker" where
  "CheckFile env checkCtx filePath hw =
     (let r = probe env filePath;
          hw1 = hw\<lparr>probe_calls := probe_calls hw @ [filePath],
                    clock := clock hw + max 0 (took r)\<rparr>
      in (\<lparr>Type = outcome r, EventFilePath = filePath, Error = failure r\<rparr>,
          fold concurrently (meanwhile r) hw1))"

definition triggerFileRepair ::
  "Collaborators \<Rightarrow> string \<Rightarrow> string option \<Rightarrow> HealthWorker \<Rightarrow> (error + unit) \<times> HealthWorker" where
  "triggerFileRepair env filePath errorMsg hw0 =
     (let hw = hw0\<lparr>repair_log := repair_log hw0 @ [filePath]\<rparr> in
      case GetFileHealth (healthRepo hw) filePath of
        Inl e \<Rightarrow> (Inl (Wrapped ''failed to get health record for library path lookup'' e), hw)
      | Inr None \<Rightarrow> (Inl NilPointerPanic, hw)
      | Inr (Some healthRecord) \<Rightarrow>
          (case LibraryPath healthRecord of
             None \<Rightarrow> (Inl (NoLibraryPath filePath), hw)
           | Some libraryPath \<Rightarrow>
               if libraryPath = [] then (Inl (NoLibraryPath filePath), hw)
               else
                 (let hw1 = hw\<lparr>rescan_calls := rescan_calls hw @ [libraryPath]\<rparr> in
                  case rescan env libraryPath of
                    Some m \<Rightarrow>
                      (case SetCorrupted (healthRepo hw1) filePath
                              (Some (error_text (RescanError m))) of
                         Inl e \<Rightarrow> (Inl e, hw1)
                       | Inr repo \<Rightarrow> (Inr (), hw1\<lparr>healthRepo := repo\<rparr>))
                  | None \<Rightarrow> (Inr (), hw1))))"

definition handleHealthCheckResult ::
  "Collaborators \<Rightarrow> HealthEvent \<Rightarrow> HealthWorker \<Rightarrow> (error + unit) \<times> HealthWorker" where
  "handleHealthCheckResult env event hw =
     (if Type event = EventTypeFileHealthy then
        (case metadata_update env (EventFilePath event) of
           Some m \<Rightarrow> (Inl (Wrapped ''failed to update metadata status'' (MetadataError m)), hw)
         | None \<Rightarrow>
             (case GetFileHealth (healthRepo hw) (EventFilePath event) of
                Inl e \<Rightarrow> (Inl (Wrapped ''failed to get file health record'' e), hw)
              | Inr None \<Rightarrow> (Inr (), hw)
              | Inr (Some fileHealth) \<Rightarrow>
                  (let releaseDate = (case ReleaseDate fileHealth of
                                        None \<Rightarrow> CreatedAt fileHealth
                                      | Some d \<Rightarrow> d);
                       nextCheck = calculateNextCheck releaseDate (clock hw)
                   in case MarkAsHealthy (healthRepo hw) (clock hw) (EventFilePath event)
                             nextCheck of
                        Inl e \<Rightarrow> (Inl (Wrapped ''failed to mark file as healthy'' e), hw)
                      | Inr repo \<Rightarrow> (Inr (), hw\<lparr>healthRepo := repo\<rparr>))))
      else if Type event = EventTypeFileCorrupted \<or> Type event = EventTypeCheckFailed then
        (case GetFileHealth (healthRepo hw) (EventFilePath event) of
           Inl e \<Rightarrow> (Inl (Wrapped ''failed to get file health record'' e), hw)
         | Inr None \<Rightarrow> (Inl (RecordNotFound (EventFilePath event)), hw)
         | Inr (Some fileHealth) \<Rightarrow>
             (let errorMsg = Error event in
              if Status fileHealth = HealthStatusRepairTriggered then
                (case IncrementRepairRetryCount (healthRepo hw) (clock hw)
                        (EventFilePath event) errorMsg of
                   Inl e \<Rightarrow> (Inl (Wrapped ''failed to increment repair retry count'' e), hw)
                 | Inr repo \<Rightarrow>
                     (let hw1 = hw\<lparr>healthRepo := repo\<rparr> in
                      if RepairRetryCount fileHealth \<ge> int64 (MaxRepairRetries fileHealth - 1) then
                        (case MarkAsCorrupted (healthRepo hw1) (EventFilePath event) errorMsg of
                           Inl e \<Rightarrow> (Inl (Wrapped ''failed to mark file as corrupted'' e), hw1)
                         | Inr repo' \<Rightarrow> (Inr (), hw1\<lparr>healthRepo := repo'\<rparr>))
                      else (Inr (), hw1)))
              else
                (case IncrementRetryCount (healthRepo hw) (clock hw)
                        (EventFilePath event) errorMsg of
                   Inl e \<Rightarrow> (Inl (Wrapped ''failed to increment retry count'' e), hw)
                 | Inr repo \<Rightarrow>
                     (let hw1 = hw\<lparr>healthRepo := repo\<rparr> in
                      if RetryCount fileHealth \<ge> int64 (MaxRetries fileHealth - 1) then
                        (case triggerFileRepair env (EventFilePath event) errorMsg hw1 of
                           (Inl e, hw2) \<Rightarrow> (Inl (propagate ''failed to trigger repair'' e), hw2)
                         | (Inr u, hw2) \<Rightarrow> (Inr (), hw2))
                      else (Inr (), hw1)))))
      else (Inr (), hw))"

text \<open>
  \<^verbatim>\<open>performDirectCheck\<close>. The derived context is the fresh cancel handle in front of
  the caller's chain. The two deferred functions (removal from \<open>activeChecks\<close>, then
  \<^verbatim>\<open>cancel()\<close>) run on every way out.
\<close>

definition record_outcome :: "EventType \<Rightarrow> WorkerStats \<Rightarrow> WorkerStats" where
  "record_outcome t s =
     (let s1 = s\<lparr>TotalFilesChecked := TotalFilesChecked s + 1\<rparr> in
      if t = EventTypeFileHealthy then s1\<lparr>TotalFilesHealthy := TotalFilesHealthy s1 + 1\<rparr>
      else if t = EventTypeFileCorrupted then s1\<lparr>TotalFilesCorrupted := TotalFilesCorrupted s1 + 1\<rparr>
      else s1)"

definition performDirectCheck ::
  "Collaborators \<Rightarrow> ctx \<Rightarrow> string \<Rightarrow> HealthWorker \<Rightarrow> (error + unit) \<times> HealthWorker" where
  "performDirectCheck env ctx filePath hw0 =
     (let cancel = next_handle hw0;
          checkCtx = cancel # ctx;
          hw = hw0\<lparr>next_handle := Suc cancel,
                   activeChecks := (activeChecks hw0)(filePath \<mapsto> cancel)\<rparr>;
          (res, hw') =
            (if ctx_done hw checkCtx then (Inl ContextCanceled, hw)
             else
               (case CheckFile env checkCtx filePath hw of
                  (event, hw1) \<Rightarrow>
                    if ctx_done hw1 checkCtx then (Inl ContextCanceled, hw1)
                    else
                      (case handleHealthCheckResult env event hw1 of
                         (Inl e, hw2) \<Rightarrow>
                           (Inl (propagate ''failed to handle health check result'' e), hw2)
                       | (Inr u, hw2) \<Rightarrow>
                           (Inr (),
                            updateStats (record_outcome (Type event))
                              (hw2\<lparr>notify_calls :=
                                     notify_calls hw2 @ [(filePath, Type event)]\<rparr>)))))
      in (res, hw'\<lparr>activeChecks := (activeChecks hw')(filePath := None),
                   cancelled := insert cancel (cancelled hw')\<rparr>))"

definition processRepairNotification ::
  "Collaborators \<Rightarrow> ctx \<Rightarrow> FileHealth \<Rightarrow> HealthWorker \<Rightarrow> (error + unit) \<times> HealthWorker" where
  "processRepairNotification env ctx fileHealth hw =
     (if ctx_done hw ctx then (Inl ContextCanceled, hw)
      else
        (case triggerFileRepair env (FilePath fileHealth) None hw of
           (Inl err, hw1) \<Rightarrow>
             if err = NilPointerPanic then (Inl NilPointerPanic, hw1)
             else
               (case IncrementRepairRetryCount (healthRepo hw1) (clock hw1)
                       (FilePath fileHealth) (Some (error_text err)) of
                  Inl retryErr \<Rightarrow>
                    (Inl (Wrapped ''failed to increment repair retry count after trigger failure''
                            retryErr), hw1)
                | Inr repo \<Rightarrow> (Inr (), hw1\<lparr>healthRepo := repo\<rparr>))
         | (Inr u, hw1) \<Rightarrow> (Inr (), hw1)))"

text \<open>
  \<^verbatim>\<open>Start\<close>. The goroutine it starts is the main loop \<open>run\<close> below, whose events
  are given to it separately. A failure to reset the records left in Checking is logged
  and nothing more.
\<close>

definition Start :: "HealthWorker \<Rightarrow> (error + unit) \<times> HealthWorker" where
  "Start hw0 =
     (if running hw0 then (Inl AlreadyRunning, hw0)
      else
        (let hw1 = updateStats
                     (\<lambda>s. s\<lparr>StatsStatus := WorkerStatusStarting, StatsLastError := None\<rparr>)
                     (hw0\<lparr>running := True, status := WorkerStatusStarting\<rparr>);
             hw2 = (case ResetFileAllChecking (healthRepo hw1) of
                      Inl e \<Rightarrow> hw1
                    | Inr repo \<Rightarrow> hw1\<lparr>healthRepo := repo\<rparr>);
             hw3 = updateStats (\<lambda>s. s\<lparr>StatsStatus := WorkerStatusRunning\<rparr>)
                     (hw2\<lparr>status := WorkerStatusRunning\<rparr>)
         in (Inr (), hw3)))"

definition AddToHealthCheck ::
  "string \<Rightarrow> string option \<Rightarrow> HealthWorker \<Rightarrow> (error + unit) \<times> HealthWorker" where
  "AddToHealthCheck filePath sourceNzb hw =
     (case GetFileHealth (healthRepo hw) filePath of
        Inl e \<Rightarrow> (Inl (Wrapped ''failed to check existing health record'' e), hw)
      | Inr None \<Rightarrow>
          (case UpdateFileHealth (healthRepo hw) (clock hw) filePath HealthStatusPending
                  None sourceNzb None False of
             Inl e \<Rightarrow> (Inl (Wrapped ''failed to add file to health database'' e), hw)
           | Inr repo \<Rightarrow> (Inr (), hw\<lparr>healthRepo := repo\<rparr>))
      | Inr (Some existingHealth) \<Rightarrow>
          if Status existingHealth \<noteq> HealthStatusPending then
            (case UpdateFileHealth (healthRepo hw) (clock hw) filePath HealthStatusPending
                    None sourceNzb None False of
               Inl e \<Rightarrow> (Inl (Wrapped ''failed to update file status to pending'' e), hw)
             | Inr repo \<Rightarrow> (Inr (), hw\<lparr>healthRepo := repo\<rparr>))
          else (Inr (), hw))"

text \<open>
  \<^verbatim>\<open>PerformBackgroundCheck\<close>. The goroutine it starts is taken to run to its end at
  once; its context is a fresh one (the 10 minute deadline is not modelled), cancelled
  by the deferred \<^verbatim>\<open>cancel()\<close> on the way out. A check that fails has the file set back
  to Pending with the error's text, keeping the source path of the record if there is
  one; a failure of that write is logged and nothing more.
\<close>

definition background_check :: "Collaborators \<Rightarrow> string \<Rightarrow> HealthWorker \<Rightarrow> HealthWorker" where
  "background_check env filePath hw0 =
     (let cancel = next_handle hw0;
          hw = hw0\<lparr>next_handle := Suc cancel\<rparr>;
          hw' =
            (case performDirectCheck env [cancel] filePath hw of
               (Inr u, hw1) \<Rightarrow> hw1
             | (Inl checkErr, hw1) \<Rightarrow>
                 if checkErr = NilPointerPanic then hw1
                 else
                   (let sourceNzb =
                          (case GetFileHealth (healthRepo hw1) filePath of
                             Inr (Some fileHealth) \<Rightarrow> SourceNzbPath fileHealth
                           | _ \<Rightarrow> None)
                    in case UpdateFileHealth (healthRepo hw1) (clock hw1) filePath
                              HealthStatusPending (Some (error_text checkErr)) sourceNzb
                              None False of
                         Inl updateErr \<Rightarrow> hw1
                       | Inr repo \<Rightarrow> hw1\<lparr>healthRepo := repo\<rparr>))
      in hw'\<lparr>cancelled := insert cancel (cancelled hw')\<rparr>)"

definition PerformBackgroundCheck ::
  "Collaborators \<Rightarrow> string \<Rightarrow> HealthWorker \<Rightarrow> (error + unit) \<times> HealthWorker" where
  "PerformBackgroundCheck env filePath hw =
     (if \<not> running hw then (Inl NotRunning, hw)
      else (Inr (), background_check env filePath hw))"

section \<open>Cycles and the tick loop\<close>

text \<open>
  The tasks of a cycle run in parallel: each starts at the instant the cycle starts
  them and takes its own time, and the wait ends when the last one has finished. Their
  effects on the worker and the store are taken task by task, in the order the tasks
  were started (one schedule of the wait group). A task reports whether it panicked;
  the wait group lets the other tasks finish and raises the panic again in
  \<^verbatim>\<open>wg.Wait()\<close>.
\<close>

definition bump_files_checked :: "WorkerStats \<Rightarrow> WorkerStats" where
  "bump_files_checked s = s\<lparr>CurrentRunFilesChecked := CurrentRunFilesChecked s + 1\<rparr>"

definition check_task ::
  "Collaborators \<Rightarrow> ctx \<Rightarrow> FileHealth \<Rightarrow> HealthWorker \<Rightarrow> bool \<times> HealthWorker" where
  "check_task env ctx fh hw =
     (case SetFileChecking (healthRepo hw) (FilePath fh) of
        Inl e \<Rightarrow> (False, hw)
      | Inr repo \<Rightarrow>
          (case performDirectCheck env ctx (FilePath fh) (hw\<lparr>healthRepo := repo\<rparr>) of
             (res, hw1) \<Rightarrow>
               if res = Inl NilPointerPanic then (True, hw1)
               else (False, updateStats bump_files_checked hw1)))"

definition repair_task ::
  "Collaborators \<Rightarrow> ctx \<Rightarrow> FileHealth \<Rightarrow> HealthWorker \<Rightarrow> bool \<times> HealthWorker" where
  "repair_task env ctx fh hw =
     (case processRepairNotification env ctx fh hw of
        (res, hw1) \<Rightarrow>
          if res = Inl NilPointerPanic then (True, hw1)
          else (False, updateStats bump_files_checked hw1))"

fun run_tasks ::
  "instant \<Rightarrow> (HealthWorker \<Rightarrow> bool \<times> HealthWorker) list \<Rightarrow> HealthWorker
     \<Rightarrow> bool \<times> HealthWorker" where
  "run_tasks start [] hw = (False, hw)"
| "run_tasks start (t # ts) hw =
     (case t (hw\<lparr>clock := start\<rparr>) of
        (panicked, hw1) \<Rightarrow>
          (case run_tasks start ts hw1 of
             (panicked', hw2) \<Rightarrow>
               (panicked \<or> panicked', hw2\<lparr>clock := max (clock hw1) (clock hw2)\<rparr>)))"

definition cycle_completed :: "instant \<Rightarrow> Config \<Rightarrow> WorkerStats \<Rightarrow> WorkerStats" where
  "cycle_completed now cfg s =
     s\<lparr>CurrentRunStartTime := None, CurrentRunFilesChecked := 0,
       TotalRunsCompleted := TotalRunsCompleted s + 1,
       LastRunTime := Some now, NextRunTime := Some (now + getCheckInterval cfg)\<rparr>"

definition runHealthCheckCycle ::
  "Collaborators \<Rightarrow> ctx \<Rightarrow> HealthWorker \<Rightarrow> (error + unit) \<times> HealthWorker" where
  "runHealthCheckCycle env ctx hw0 =
     (let hw1 = hw0\<lparr>cycleRunning := True\<rparr>;
          now = clock hw1;
          maxConcurrent = getMaxConcurrentJobs (config hw1);
          hw2 = updateStats
                  (\<lambda>s. s\<lparr>CurrentRunStartTime := Some now, CurrentRunFilesChecked := 0\<rparr>) hw1;
          hw3 = hw2\<lparr>fetch_calls := Suc (fetch_calls hw2)\<rparr>;
          (res, hw') =
            (case GetUnhealthyFiles (healthRepo hw3) (clock hw3) maxConcurrent of
               Inl e \<Rightarrow> (Inl (Wrapped ''failed to get unhealthy files'' e), hw3)
             | Inr unhealthyFiles \<Rightarrow>
                 (let hw4 = hw3\<lparr>fetch_calls := Suc (fetch_calls hw3)\<rparr> in
                  case GetFilesForRepairNotification (healthRepo hw4) (clock hw4)
                         maxConcurrent of
                    Inl e \<Rightarrow>
                      (Inl (Wrapped ''failed to get files for repair notification'' e), hw4)
                  | Inr repairFiles \<Rightarrow>
                      if length unhealthyFiles + length repairFiles = 0 then
                        (Inr (), updateStats (cycle_completed now (config hw4)) hw4)
                      else
                        (case run_tasks (clock hw4)
                                (map (check_task env ctx) unhealthyFiles @
                                 map (repair_task env ctx) repairFiles) hw4 of
                           (panicked, hw5) \<Rightarrow>
                             if panicked then (Inl NilPointerPanic, hw5)
                             else (Inr (),
                                   updateStats (cycle_completed now (config hw5)) hw5))))
      in (res, hw'\<lparr>cycleRunning := False\<rparr>))"

text \<open>
  What the \<^verbatim>\<open>select\<close> of the main loop receives, in order; a tick carries the
  instant at which the loop receives it. The loop calls the cycle synchronously, and the
  ticker's channel holds a single tick: ticks that fire while a cycle runs are dropped by
  the runtime and are not events of this list.
\<close>

datatype select_case = CtxDone | StopSignal | TickerFired instant

definition cycle_failed :: "error \<Rightarrow> WorkerStats \<Rightarrow> WorkerStats" where
  "cycle_failed err s =
     s\<lparr>ErrorCount := ErrorCount s + 1, StatsLastError := Some (error_text err)\<rparr>"

fun run :: "Collaborators \<Rightarrow> ctx \<Rightarrow> select_case list \<Rightarrow> HealthWorker \<Rightarrow> HealthWorker" where
  "run env ctx [] hw = hw"
| "run env ctx (CtxDone # evs) hw = hw"
| "run env ctx (StopSignal # evs) hw = hw"
| "run env ctx (TickerFired t # evs) hw0 =
     (let hw = hw0\<lparr>clock := max (clock hw0) t\<rparr> in
      if cycleRunning hw then run env ctx evs hw
      else
        (case runHealthCheckCycle env ctx hw of
           (Inl err, hw1) \<Rightarrow>
             if err = NilPointerPanic then hw1
             else run env ctx evs (updateStats (cycle_failed err) hw1)
         | (Inr u, hw1) \<Rightarrow> run env ctx evs hw1))"

section \<open>Construction and scenarios\<close>

text \<open>\<^verbatim>\<open>NewHealthWorker\<close>: a stopped worker with no active check and zeroed statistics.\<close>

definition NewHealthWorker :: "HealthRepository \<Rightarrow> Config \<Rightarrow> HealthWorker" where
  "NewHealthWorker repo cfg =
     \<lparr>healthRepo = repo, config = cfg, status = WorkerStatusStopped, running = False,
      cycleRunning = False, activeChecks = Map.empty,
      stats = \<lparr>StatsStatus = WorkerStatusStopped, LastRunTime = None, NextRunTime = None,
               TotalRunsCompleted = 0,
               TotalFilesChecked = 0, TotalFilesHealthy = 0, TotalFilesCorrupted = 0,
               CurrentRunStartTime = None, CurrentRunFilesChecked = 0,
               StatsLastError = None, ErrorCount = 0\<rparr>,
      clock = 0, cancelled = {}, next_handle = 0, probe_calls = [], rescan_calls = [],
      notify_calls = [], fetch_calls = 0, repair_log = []\<rparr>"

text \<open>
  The inputs of the scenarios of section 8 of the specification: a pending record that
  is due, with the given library path, retry count and retry bound (and a repair bound
  of 2); a reachable store; the default configuration; collaborators whose prober always
  gives the same outcome, with the same error text, after the same time, and whose
  rescanner and metadata service succeed.
\<close>

definition watched :: "string \<Rightarrow> string option \<Rightarrow> int \<Rightarrow> int \<Rightarrow> FileHealth" where
  "watched p lib n bound =
     \<lparr>FilePath = p, Status = HealthStatusPending, SourceNzbPath = None, LibraryPath = lib,
      ReleaseDate = None, CreatedAt = 0, RetryCount = n, MaxRetries = bound,
      RepairRetryCount = 0, MaxRepairRetries = 2, LastError = None, LastChecked = None,
      ScheduledCheckAt = Some 0\<rparr>"

definition store_of :: "FileHealth list \<Rightarrow> HealthRepository" where
  "store_of rs = \<lparr>rows = rs, outage = None, DefaultMaxRetries = 3, DefaultMaxRepairRetries = 2\<rparr>"

definition default_config :: Config where
  "default_config = \<lparr>CheckIntervalSeconds = 0, MaxConcurrentJobs = None\<rparr>"

definition steady :: "EventType \<Rightarrow> string option \<Rightarrow> int \<Rightarrow> Collaborators" where
  "steady t e d =
     \<lparr>probe = (\<lambda>p. \<lparr>outcome = t, failure = e, took = d, meanwhile = []\<rparr>),
      rescan = (\<lambda>p. None), metadata_update = (\<lambda>p. None)\<rparr>"

text \<open>The same collaborators with a metadata service that refuses every update.\<close>

definition metadata_failing :: "string \<Rightarrow> Collaborators \<Rightarrow> Collaborators" where
  "metadata_failing m env = env\<lparr>metadata_update := (\<lambda>p. Some m)\<rparr>"

definition event_for :: "EventType \<Rightarrow> string \<Rightarrow> HealthEvent" where
  "event_for t p = \<lparr>Type = t, EventFilePath = p, Error = None\<rparr>"


text \<open>The four counters of a record.\<close>

definition counters :: "FileHealth \<Rightarrow> int \<times> int \<times> int \<times> int" where
  "counters r = (RetryCount r, MaxRetries r, RepairRetryCount r, MaxRepairRetries r)"





text \<open>
  The worker at the moment the probe of a check started on \<open>hw\<close> returns: the check has
  registered its cancel handle, the probe has run, and whatever happened meanwhile has
  taken effect.
\<close>

definition probing :: "Collaborators \<Rightarrow> ctx \<Rightarrow> string \<Rightarrow> HealthWorker \<Rightarrow> HealthWorker" where
  "probing env ctx filePath hw =
     snd (CheckFile env (next_handle hw # ctx) filePath
            (hw\<lparr>next_handle := Suc (next_handle hw),
                 activeChecks := (activeChecks hw)(filePath \<mapsto> next_handle hw)\<rparr>))"

text \<open>
  The collaborators of scenario S4: every probe takes 30 seconds, during which an
  operator cancels the check of the given path.
\<close>

definition cancelled_by_operator :: "string \<Rightarrow> Collaborators" where
  "cancelled_by_operator p =
     \<lparr>probe = (\<lambda>q. \<lparr>outcome = EventTypeFileHealthy, failure = None, took = 30000,
                     meanwhile = [CallCancelHealthCheck p]\<rparr>),
      rescan = (\<lambda>q. None), metadata_update = (\<lambda>q. None)\<rparr>"

section \<open>Facts about the store\<close>

lemma find_row_update_row:
  assumes "\<And>r. FilePath (f r) = FilePath r"
  shows "find_row q (update_row p f rs) =
           (if q = p then map_option f (find_row p rs) else find_row q rs)"
  by (induction rs) (auto simp: find_row_def update_row_def assms)

lemma write_row_up:
  "outage repo = None \<Longrightarrow>
     write_row repo p f = Inr (repo\<lparr>rows := update_row p f (rows repo)\<rparr>)"
  by (simp add: write_row_def)

lemma FilePath_transformers [simp]:
  "FilePath (marked_healthy now n r) = FilePath r"
  "FilePath (retry_incremented now e r) = FilePath r"
  "FilePath (repair_retry_incremented now e r) = FilePath r"
  "FilePath (permanently_corrupted e r) = FilePath r"
  "FilePath (rewritten st e src due reset r) = FilePath r"
  by (simp_all add: marked_healthy_def retry_incremented_def repair_retry_incremented_def
        permanently_corrupted_def rewritten_def)



section \<open>The repair procedure and the result handler\<close>


text \<open>
  The repair procedure for a path that has a record, the store answering: what it
  returns and what it leaves behind, by library path and rescanner answer.
\<close>

lemma triggerFileRepair_with_record:
  assumes "outage (healthRepo hw) = None"
      and "find_row p (rows (healthRepo hw)) = Some r"
  shows "triggerFileRepair env p m hw =
     (case LibraryPath r of
        None \<Rightarrow> (Inl (NoLibraryPath p), hw\<lparr>repair_log := repair_log hw @ [p]\<rparr>)
      | Some lp \<Rightarrow>
          if lp = [] then (Inl (NoLibraryPath p), hw\<lparr>repair_log := repair_log hw @ [p]\<rparr>)
          else
            (case rescan env lp of
               None \<Rightarrow>
                 (Inr (), hw\<lparr>repair_log := repair_log hw @ [p],
                             rescan_calls := rescan_calls hw @ [lp]\<rparr>)
             | Some e \<Rightarrow>
                 (Inr (), hw\<lparr>repair_log := repair_log hw @ [p],
                             rescan_calls := rescan_calls hw @ [lp],
                             healthRepo := (healthRepo hw)\<lparr>rows :=
                               update_row p (permanently_corrupted (Some e))
                                 (rows (healthRepo hw))\<rparr>\<rparr>)))"
  using assms
  by (simp add: triggerFileRepair_def GetFileHealth_def SetCorrupted_def write_row_up Let_def
        split: option.splits)

lemma handle_failure_check_phase:
  assumes "outage (healthRepo hw) = None"
      and "find_row (EventFilePath event) (rows (healthRepo hw)) = Some fh"
      and "Status fh \<noteq> HealthStatusRepairTriggered"
      and "Type event = EventTypeFileCorrupted \<or> Type event = EventTypeCheckFailed"
  shows "handleHealthCheckResult env event hw =
     (let hw1 = hw\<lparr>healthRepo := (healthRepo hw)\<lparr>rows := update_row (EventFilePath event)
                  (retry_incremented (clock hw) (Error event)) (rows (healthRepo hw))\<rparr>\<rparr> in
      if int64 (MaxRetries fh - 1) \<le> RetryCount fh then
         (case triggerFileRepair env (EventFilePath event) (Error event) hw1 of
             (Inl e, hw2) \<Rightarrow> (Inl (propagate ''failed to trigger repair'' e), hw2)
           | (Inr u, hw2) \<Rightarrow> (Inr (), hw2))
      else (Inr (), hw1))"
  using assms
  by (auto simp: handleHealthCheckResult_def GetFileHealth_def IncrementRetryCount_def
        write_row_up Let_def)

lemma snd_case_sum_pair:
  "snd (case x of (Inl e, h) \<Rightarrow> (f e, h) | (Inr u, h) \<Rightarrow> (g u, h)) = snd x"
  by (cases x; cases "fst x") auto

text \<open>
  A failure in the health-check phase, spelled out: the failure is recorded, and when
  the bound is reached the repair procedure runs on the record so updated.
\<close>

lemma handle_failure_check_phase_cases:
  assumes up: "outage (healthRepo hw) = None"
      and row: "find_row (EventFilePath event) (rows (healthRepo hw)) = Some fh"
      and phase: "Status fh \<noteq> HealthStatusRepairTriggered"
      and fail: "Type event = EventTypeFileCorrupted \<or> Type event = EventTypeCheckFailed"
  shows "handleHealthCheckResult env event hw =
     (let p = EventFilePath event;
          hw1 = hw\<lparr>healthRepo := (healthRepo hw)\<lparr>rows := update_row p
                  (retry_incremented (clock hw) (Error event)) (rows (healthRepo hw))\<rparr>\<rparr>;
          hw2 = hw1\<lparr>repair_log := repair_log hw @ [p]\<rparr>
      in if int64 (MaxRetries fh - 1) \<le> RetryCount fh then
           (case LibraryPath fh of
              None \<Rightarrow> (Inl (Wrapped ''failed to trigger repair'' (NoLibraryPath p)), hw2)
            | Some lp \<Rightarrow>
                if lp = [] then
                  (Inl (Wrapped ''failed to trigger repair'' (NoLibraryPath p)), hw2)
                else
                  (case rescan env lp of
                     None \<Rightarrow> (Inr (), hw2\<lparr>rescan_calls := rescan_calls hw @ [lp]\<rparr>)
                   | Some e \<Rightarrow>
                       (Inr (), hw2\<lparr>rescan_calls := rescan_calls hw @ [lp],
                                    healthRepo := (healthRepo hw1)\<lparr>rows :=
                                      update_row p (permanently_corrupted (Some e))
                                        (rows (healthRepo hw1))\<rparr>\<rparr>)))
         else (Inr (), hw1))"
proof -
  let ?p = "EventFilePath event"
  let ?hw1 = "hw\<lparr>healthRepo := (healthRepo hw)\<lparr>rows := update_row ?p
                  (retry_incremented (clock hw) (Error event)) (rows (healthRepo hw))\<rparr>\<rparr>"
  have up1: "outage (healthRepo ?hw1) = None" using up by simp
  have row1: "find_row ?p (rows (healthRepo ?hw1)) =
                Some (retry_incremented (clock hw) (Error event) fh)"
    using row by (simp add: find_row_update_row)
  have lib: "LibraryPath (retry_incremented (clock hw) (Error event) fh) = LibraryPath fh"
    by (simp add: retry_incremented_def)
  note t = triggerFileRepair_with_record[OF up1 row1, of env "Error event", unfolded lib]
  show ?thesis
    by (simp add: handle_failure_check_phase[OF assms] Let_def t propagate_def
          split: option.splits)
qed




text \<open>
  C10, as amended. A Corrupted or CheckFailed outcome for a path that has no record: the
  result handler leaves the whole worker state, the store included, as it was, and
  returns the error "file health record not found" (or, when the store cannot be read
  at all, the store's error).
\<close>

theorem failure_without_record_writes_nothing:
  assumes "Type event = EventTypeFileCorrupted \<or> Type event = EventTypeCheckFailed"
      and "find_row (EventFilePath event) (rows (healthRepo hw)) = None"
  shows "handleHealthCheckResult env event hw =
           (Inl (case outage (healthRepo hw) of
                   None \<Rightarrow> RecordNotFound (EventFilePath event)
                 | Some m \<Rightarrow> Wrapped ''failed to get file health record'' (StoreError m)), hw)"
  using assms
  by (auto simp: handleHealthCheckResult_def GetFileHealth_def split: option.splits)

theorem failure_without_record_writes_nothing_witness:
  "handleHealthCheckResult (steady EventTypeFileCorrupted None 0)
       (event_for EventTypeFileCorrupted ''/m/x.mkv'')
       (NewHealthWorker (store_of []) default_config) =
     (Inl (RecordNotFound ''/m/x.mkv''), NewHealthWorker (store_of []) default_config)"
  using failure_without_record_writes_nothing
          [of "event_for EventTypeFileCorrupted ''/m/x.mkv''"
              "NewHealthWorker (store_of []) default_config"
              "steady EventTypeFileCorrupted None 0"]
  by (simp add: event_for_def NewHealthWorker_def store_of_def find_row_def)

text \<open>
  A probe outcome can create a record all the same. A started worker over an empty
  store is asked for a background check of a path; the probe reports Corrupted, the
  handler returns its not-found error, and the background check answers the error by
  writing status Pending through the general write path, which inserts the row.
\<close>

theorem background_check_creates_record_counterexample:
  "rows (healthRepo (snd (Start (NewHealthWorker (store_of []) default_config)))) = [] \<and>
   fst (PerformBackgroundCheck (steady EventTypeFileCorrupted (Some ''segments missing'') 500)
      ''/m/x.mkv'' (snd (Start (NewHealthWorker (store_of []) default_config)))) = Inr () \<and>
   probe_calls (snd (PerformBackgroundCheck
      (steady EventTypeFileCorrupted (Some ''segments missing'') 500)
      ''/m/x.mkv'' (snd (Start (NewHealthWorker (store_of []) default_config))))) =
     [''/m/x.mkv''] \<and>
   rows (healthRepo (snd (PerformBackgroundCheck
      (steady EventTypeFileCorrupted (Some ''segments missing'') 500)
      ''/m/x.mkv'' (snd (Start (NewHealthWorker (store_of []) default_config)))))) =
     [\<lparr>FilePath = ''/m/x.mkv'', Status = HealthStatusPending, SourceNzbPath = None,
       LibraryPath = None, ReleaseDate = None, CreatedAt = 500, RetryCount = 0,
       MaxRetries = 3, RepairRetryCount = 0, MaxRepairRetries = 2,
       LastError = Some (''failed to handle health check result: '' @
                         ''file health record not found for file: /m/x.mkv''),
       LastChecked = None, ScheduledCheckAt = Some 500\<rparr>]"
  by code_simp

text \<open>
  C9, as amended. A Healthy outcome for a tracked record. The handler first updates the
  metadata status. When that update and the store answer, the record becomes Healthy,
  both retry counters are zero, \<open>last_checked\<close> is the current time, and
  \<open>scheduled_check_at\<close> is the scheduler's next check computed from the release date,
  or from \<open>created_at\<close> when the record has no release date. When the metadata update
  fails, or the store cannot be read, the handler returns that error and the worker
  state, the record included, is as it was.
\<close>

theorem healthy_outcome_after_metadata_update:
  assumes "Type event = EventTypeFileHealthy"
      and "find_row (EventFilePath event) (rows (healthRepo hw)) = Some fh"
  shows "(metadata_update env (EventFilePath event) = None \<and> outage (healthRepo hw) = None \<longrightarrow>
            fst (handleHealthCheckResult env event hw) = Inr () \<and>
            find_row (EventFilePath event)
              (rows (healthRepo (snd (handleHealthCheckResult env event hw)))) =
              Some (fh\<lparr>Status := HealthStatusHealthy, RetryCount := 0, RepairRetryCount := 0,
                       LastChecked := Some (clock hw),
                       ScheduledCheckAt := Some (calculateNextCheck
                          (case ReleaseDate fh of None \<Rightarrow> CreatedAt fh | Some d \<Rightarrow> d)
                          (clock hw))\<rparr>)) \<and>
         (\<forall>m. metadata_update env (EventFilePath event) = Some m \<longrightarrow>
            handleHealthCheckResult env event hw =
              (Inl (Wrapped ''failed to update metadata status'' (MetadataError m)), hw)) \<and>
         (\<forall>m. metadata_update env (EventFilePath event) = None \<and>
              outage (healthRepo hw) = Some m \<longrightarrow>
            handleHealthCheckResult env event hw =
              (Inl (Wrapped ''failed to get file health record'' (StoreError m)), hw))"
  using assms
  by (simp add: handleHealthCheckResult_def GetFileHealth_def MarkAsHealthy_def write_row_up
        find_row_update_row marked_healthy_def Let_def)

theorem healthy_outcome_after_metadata_update_witness:
  "fst (handleHealthCheckResult (steady EventTypeFileHealthy None 0)
          (event_for EventTypeFileHealthy ''/m/x.mkv'')
          (NewHealthWorker (store_of [watched ''/m/x.mkv'' None 2 3]) default_config)) = Inr () \<and>
   find_row ''/m/x.mkv''
     (rows (healthRepo (snd (handleHealthCheckResult (steady EventTypeFileHealthy None 0)
          (event_for EventTypeFileHealthy ''/m/x.mkv'')
          (NewHealthWorker (store_of [watched ''/m/x.mkv'' None 2 3]) default_config))))) =
     Some ((watched ''/m/x.mkv'' None 0 3)
             \<lparr>Status := HealthStatusHealthy, LastChecked := Some 0,
              ScheduledCheckAt := Some 3600000\<rparr>) \<and>
   handleHealthCheckResult
       (metadata_failing ''metadata unavailable'' (steady EventTypeFileHealthy None 0))
       (event_for EventTypeFileHealthy ''/m/x.mkv'')
       (NewHealthWorker (store_of [watched ''/m/x.mkv'' None 2 3]) default_config) =
     (Inl (Wrapped ''failed to update metadata status'' (MetadataError ''metadata unavailable'')),
      NewHealthWorker (store_of [watched ''/m/x.mkv'' None 2 3]) default_config) \<and>
   handleHealthCheckResult (steady EventTypeFileHealthy None 0)
       (event_for EventTypeFileHealthy ''/m/x.mkv'')
       (NewHealthWorker ((store_of [watched ''/m/x.mkv'' None 2 3])
          \<lparr>outage := Some ''database is locked''\<rparr>) default_config) =
     (Inl (Wrapped ''failed to get file health record'' (StoreError ''database is locked'')),
      NewHealthWorker ((store_of [watched ''/m/x.mkv'' None 2 3])
          \<lparr>outage := Some ''database is locked''\<rparr>) default_config)"
proof -
  let ?ev = "event_for EventTypeFileHealthy ''/m/x.mkv''"
  let ?fh = "watched ''/m/x.mkv'' None 2 3"
  let ?hw = "NewHealthWorker (store_of [?fh]) default_config"
  let ?down = "NewHealthWorker ((store_of [?fh])\<lparr>outage := Some ''database is locked''\<rparr>)
                 default_config"
  let ?env = "steady EventTypeFileHealthy None 0"
  let ?bad = "metadata_failing ''metadata unavailable'' ?env"
  have a: "Type ?ev = EventTypeFileHealthy" by (simp add: event_for_def)
  have d: "find_row (EventFilePath ?ev) (rows (healthRepo ?hw)) = Some ?fh"
          "find_row (EventFilePath ?ev) (rows (healthRepo ?down)) = Some ?fh"
    by (simp_all add: event_for_def NewHealthWorker_def store_of_def find_row_def watched_def)
  have ok: "metadata_update ?env (EventFilePath ?ev) = None \<and> outage (healthRepo ?hw) = None"
    by (simp add: steady_def NewHealthWorker_def store_of_def)
  have bad: "metadata_update ?bad (EventFilePath ?ev) = Some ''metadata unavailable''"
    by (simp add: metadata_failing_def)
  have down: "metadata_update ?env (EventFilePath ?ev) = None \<and>
              outage (healthRepo ?down) = Some ''database is locked''"
    by (simp add: steady_def NewHealthWorker_def)
  have e: "EventFilePath ?ev = ''/m/x.mkv''" "clock ?hw = 0"
    by (simp_all add: event_for_def NewHealthWorker_def)
  note A = healthy_outcome_after_metadata_update[OF a d(1), of ?env,
             THEN conjunct1, THEN mp, OF ok]
  note B = healthy_outcome_after_metadata_update[OF a d(1), of ?bad,
             THEN conjunct2, THEN conjunct1, THEN spec, THEN mp, OF bad]
  note C = healthy_outcome_after_metadata_update[OF a d(2), of ?env,
             THEN conjunct2, THEN conjunct2, THEN spec, THEN mp, OF down]
  have "fst (handleHealthCheckResult ?env ?ev ?hw) = Inr ()"
    by (rule A[THEN conjunct1])
  moreover have "find_row ''/m/x.mkv''
       (rows (healthRepo (snd (handleHealthCheckResult ?env ?ev ?hw)))) =
     Some ((watched ''/m/x.mkv'' None 0 3)
             \<lparr>Status := HealthStatusHealthy, LastChecked := Some 0,
              ScheduledCheckAt := Some 3600000\<rparr>)"
    using A[THEN conjunct2] unfolding e by (simp add: watched_def calculateNextCheck_def)
  ultimately show ?thesis using B C by (intro conjI)
qed

text \<open>
  A Healthy outcome that does not mark the record: the metadata service refuses the
  update, the handler returns before it reads or writes the store, and the record a
  cycle had set to Checking stays so, counters untouched.
\<close>

theorem healthy_outcome_not_marked_counterexample:
  "fst (handleHealthCheckResult
       (metadata_failing ''metadata unavailable'' (steady EventTypeFileHealthy None 500))
       (event_for EventTypeFileHealthy ''/m/x.mkv'')
       (NewHealthWorker (store_of [watched ''/m/x.mkv'' None 2 3]) default_config)) =
     Inl (Wrapped ''failed to update metadata status'' (MetadataError ''metadata unavailable'')) \<and>
   rows (healthRepo (snd (handleHealthCheckResult
       (metadata_failing ''metadata unavailable'' (steady EventTypeFileHealthy None 500))
       (event_for EventTypeFileHealthy ''/m/x.mkv'')
       (NewHealthWorker (store_of [watched ''/m/x.mkv'' None 2 3]) default_config)))) =
     [watched ''/m/x.mkv'' None 2 3] \<and>
   probe_calls (run
       (metadata_failing ''metadata unavailable'' (steady EventTypeFileHealthy None 500))
       [] [TickerFired 5000]
       (NewHealthWorker (store_of [watched ''/m/x.mkv'' None 2 3]) default_config)) =
     [''/m/x.mkv''] \<and>
   map Status (rows (healthRepo (run
       (metadata_failing ''metadata unavailable'' (steady EventTypeFileHealthy None 500))
       [] [TickerFired 5000]
       (NewHealthWorker (store_of [watched ''/m/x.mkv'' None 2 3]) default_config)))) =
     [HealthStatusChecking] \<and>
   map counters (rows (healthRepo (run
       (metadata_failing ''metadata unavailable'' (steady EventTypeFileHealthy None 500))
       [] [TickerFired 5000]
       (NewHealthWorker (store_of [watched ''/m/x.mkv'' None 2 3]) default_config)))) =
     [(2, 3, 0, 2)]"
  by code_simp




section \<open>Counters and their bounds\<close>













section \<open>Triggering repair\<close>

text \<open>
  C3, as amended. A record whose library path is missing or empty, the store answering.
  On the repair-notification task (context not cancelled) the repair procedure fails
  with the no-library-path error without calling the rescanner; the task persists that
  error as \<open>last_error\<close>, adds one to \<open>repair_retry_count\<close>, leaves the status as it
  is, and returns without error. On the escalation path of a failing health check (a
  record in the health-check phase whose retry count has reached the bound) the handler
  records the failed check, with the probe's error as \<open>last_error\<close>, and returns the
  error "failed to trigger repair: no library path found ..." to its caller; the repair
  retry count is unchanged and the rescanner is not called.
\<close>

theorem library_path_missing:
  "(outage (healthRepo hw) = None \<and>
    find_row (FilePath fileHealth) (rows (healthRepo hw)) = Some fh \<and>
    (LibraryPath fh = None \<or> LibraryPath fh = Some []) \<and>
    \<not> ctx_done hw ctx \<longrightarrow>
      fst (triggerFileRepair env (FilePath fileHealth) None hw) =
        Inl (NoLibraryPath (FilePath fileHealth)) \<and>
      fst (processRepairNotification env ctx fileHealth hw) = Inr () \<and>
      rescan_calls (snd (processRepairNotification env ctx fileHealth hw)) = rescan_calls hw \<and>
      find_row (FilePath fileHealth)
        (rows (healthRepo (snd (processRepairNotification env ctx fileHealth hw)))) =
        Some (fh\<lparr>RepairRetryCount := RepairRetryCount fh + 1,
                 LastError := Some (error_text (NoLibraryPath (FilePath fileHealth))),
                 LastChecked := Some (clock hw),
                 ScheduledCheckAt := Some (clock hw + backoff (RepairRetryCount fh + 1))\<rparr>)) \<and>
   (outage (healthRepo hw) = None \<and>
    find_row (EventFilePath event) (rows (healthRepo hw)) = Some fh \<and>
    (LibraryPath fh = None \<or> LibraryPath fh = Some []) \<and>
    Status fh \<noteq> HealthStatusRepairTriggered \<and>
    (Type event = EventTypeFileCorrupted \<or> Type event = EventTypeCheckFailed) \<and>
    RetryCount fh \<ge> int64 (MaxRetries fh - 1) \<longrightarrow>
      fst (handleHealthCheckResult env event hw) =
        Inl (Wrapped ''failed to trigger repair'' (NoLibraryPath (EventFilePath event))) \<and>
      rescan_calls (snd (handleHealthCheckResult env event hw)) = rescan_calls hw \<and>
      find_row (EventFilePath event)
        (rows (healthRepo (snd (handleHealthCheckResult env event hw)))) =
        Some (fh\<lparr>Status := HealthStatusCorrupted, RetryCount := RetryCount fh + 1,
                 LastError := Error event, LastChecked := Some (clock hw),
                 ScheduledCheckAt := Some (clock hw + backoff (RetryCount fh + 1))\<rparr>))"
proof (intro conjI impI)
  assume a: "outage (healthRepo hw) = None \<and>
    find_row (FilePath fileHealth) (rows (healthRepo hw)) = Some fh \<and>
    (LibraryPath fh = None \<or> LibraryPath fh = Some []) \<and> \<not> ctx_done hw ctx"
  then have up: "outage (healthRepo hw) = None"
    and row: "find_row (FilePath fileHealth) (rows (healthRepo hw)) = Some fh"
    and nolib: "LibraryPath fh = None \<or> LibraryPath fh = Some []"
    and live: "\<not> ctx_done hw ctx"
    by simp_all
  have t: "triggerFileRepair env (FilePath fileHealth) None hw =
             (Inl (NoLibraryPath (FilePath fileHealth)),
              hw\<lparr>repair_log := repair_log hw @ [FilePath fileHealth]\<rparr>)"
    using nolib by (auto simp: triggerFileRepair_with_record[OF up row])
  show "fst (triggerFileRepair env (FilePath fileHealth) None hw) =
          Inl (NoLibraryPath (FilePath fileHealth))"
    by (simp add: t)
  show "fst (processRepairNotification env ctx fileHealth hw) = Inr ()"
    using up live by (simp add: processRepairNotification_def t IncrementRepairRetryCount_def
        write_row_up)
  show "rescan_calls (snd (processRepairNotification env ctx fileHealth hw)) = rescan_calls hw"
    using up live by (simp add: processRepairNotification_def t IncrementRepairRetryCount_def
        write_row_up)
  show "find_row (FilePath fileHealth)
        (rows (healthRepo (snd (processRepairNotification env ctx fileHealth hw)))) =
        Some (fh\<lparr>RepairRetryCount := RepairRetryCount fh + 1,
                 LastError := Some (error_text (NoLibraryPath (FilePath fileHealth))),
                 LastChecked := Some (clock hw),
                 ScheduledCheckAt := Some (clock hw + backoff (RepairRetryCount fh + 1))\<rparr>)"
    using up row live
    by (simp add: processRepairNotification_def t IncrementRepairRetryCount_def write_row_up
          find_row_update_row repair_retry_incremented_def)
next
  assume b: "outage (healthRepo hw) = None \<and>
    find_row (EventFilePath event) (rows (healthRepo hw)) = Some fh \<and>
    (LibraryPath fh = None \<or> LibraryPath fh = Some []) \<and>
    Status fh \<noteq> HealthStatusRepairTriggered \<and>
    (Type event = EventTypeFileCorrupted \<or> Type event = EventTypeCheckFailed) \<and>
    RetryCount fh \<ge> int64 (MaxRetries fh - 1)"
  then have up: "outage (healthRepo hw) = None"
    and row: "find_row (EventFilePath event) (rows (healthRepo hw)) = Some fh"
    and nolib: "LibraryPath fh = None \<or> LibraryPath fh = Some []"
    and phase: "Status fh \<noteq> HealthStatusRepairTriggered"
    and fail: "Type event = EventTypeFileCorrupted \<or> Type event = EventTypeCheckFailed"
    and bound: "int64 (MaxRetries fh - 1) \<le> RetryCount fh"
    by simp_all
  have h: "handleHealthCheckResult env event hw =
      (Inl (Wrapped ''failed to trigger repair'' (NoLibraryPath (EventFilePath event))),
       hw\<lparr>healthRepo := (healthRepo hw)\<lparr>rows := update_row (EventFilePath event)
                  (retry_incremented (clock hw) (Error event)) (rows (healthRepo hw))\<rparr>,
           repair_log := repair_log hw @ [EventFilePath event]\<rparr>)"
    using nolib bound
    by (auto simp: handle_failure_check_phase_cases[OF up row phase fail] Let_def)
  show "fst (handleHealthCheckResult env event hw) =
        Inl (Wrapped ''failed to trigger repair'' (NoLibraryPath (EventFilePath event)))"
    by (simp add: h)
  show "rescan_calls (snd (handleHealthCheckResult env event hw)) = rescan_calls hw"
    by (simp add: h)
  show "find_row (EventFilePath event)
        (rows (healthRepo (snd (handleHealthCheckResult env event hw)))) =
        Some (fh\<lparr>Status := HealthStatusCorrupted, RetryCount := RetryCount fh + 1,
                 LastError := Error event, LastChecked := Some (clock hw),
                 ScheduledCheckAt := Some (clock hw + backoff (RetryCount fh + 1))\<rparr>)"
    using row by (simp add: h find_row_update_row retry_incremented_def)
qed

theorem library_path_missing_witness:
  "fst (processRepairNotification (steady EventTypeFileCorrupted None 0) []
          (watched ''/m/x.mkv'' None 3 3)
          (NewHealthWorker (store_of [(watched ''/m/x.mkv'' None 3 3)
              \<lparr>Status := HealthStatusRepairTriggered\<rparr>]) default_config)) = Inr () \<and>
   map_option RepairRetryCount (find_row ''/m/x.mkv''
     (rows (healthRepo (snd (processRepairNotification (steady EventTypeFileCorrupted None 0) []
          (watched ''/m/x.mkv'' None 3 3)
          (NewHealthWorker (store_of [(watched ''/m/x.mkv'' None 3 3)
              \<lparr>Status := HealthStatusRepairTriggered\<rparr>]) default_config)))))) = Some 1 \<and>
   map_option Status (find_row ''/m/x.mkv''
     (rows (healthRepo (snd (processRepairNotification (steady EventTypeFileCorrupted None 0) []
          (watched ''/m/x.mkv'' None 3 3)
          (NewHealthWorker (store_of [(watched ''/m/x.mkv'' None 3 3)
              \<lparr>Status := HealthStatusRepairTriggered\<rparr>]) default_config)))))) =
     Some HealthStatusRepairTriggered \<and>
   fst (handleHealthCheckResult (steady EventTypeFileCorrupted (Some ''segments missing'') 0)
          (\<lparr>Type = EventTypeFileCorrupted, EventFilePath = ''/m/x.mkv'',
            Error = Some ''segments missing''\<rparr>)
          (NewHealthWorker (store_of [watched ''/m/x.mkv'' None 2 3]) default_config)) =
     Inl (Wrapped ''failed to trigger repair'' (NoLibraryPath ''/m/x.mkv'')) \<and>
   map_option counters (find_row ''/m/x.mkv''
     (rows (healthRepo (snd (handleHealthCheckResult
          (steady EventTypeFileCorrupted (Some ''segments missing'') 0)
          (\<lparr>Type = EventTypeFileCorrupted, EventFilePath = ''/m/x.mkv'',
            Error = Some ''segments missing''\<rparr>)
          (NewHealthWorker (store_of [watched ''/m/x.mkv'' None 2 3]) default_config)))))) =
     Some (3, 3, 0, 2) \<and>
   map_option LastError (find_row ''/m/x.mkv''
     (rows (healthRepo (snd (handleHealthCheckResult
          (steady EventTypeFileCorrupted (Some ''segments missing'') 0)
          (\<lparr>Type = EventTypeFileCorrupted, EventFilePath = ''/m/x.mkv'',
            Error = Some ''segments missing''\<rparr>)
          (NewHealthWorker (store_of [watched ''/m/x.mkv'' None 2 3]) default_config)))))) =
     Some (Some ''segments missing'')"
proof -
  let ?fh = "(watched ''/m/x.mkv'' None 3 3)\<lparr>Status := HealthStatusRepairTriggered\<rparr>"
  let ?hw = "NewHealthWorker (store_of [?fh]) default_config"
  let ?env = "steady EventTypeFileCorrupted None 0"
  let ?ev = "\<lparr>Type = EventTypeFileCorrupted, EventFilePath = ''/m/x.mkv'',
              Error = Some ''segments missing''\<rparr>"
  let ?fh2 = "watched ''/m/x.mkv'' None 2 3"
  let ?hw2 = "NewHealthWorker (store_of [?fh2]) default_config"
  let ?env2 = "steady EventTypeFileCorrupted (Some ''segments missing'') 0"
  have a: "outage (healthRepo ?hw) = None \<and>
    find_row (FilePath (watched ''/m/x.mkv'' None 3 3)) (rows (healthRepo ?hw)) = Some ?fh \<and>
    (LibraryPath ?fh = None \<or> LibraryPath ?fh = Some []) \<and> \<not> ctx_done ?hw []"
    by (simp add: NewHealthWorker_def store_of_def find_row_def watched_def ctx_done_def)
  have b: "outage (healthRepo ?hw2) = None \<and>
    find_row (EventFilePath ?ev) (rows (healthRepo ?hw2)) = Some ?fh2 \<and>
    (LibraryPath ?fh2 = None \<or> LibraryPath ?fh2 = Some []) \<and>
    Status ?fh2 \<noteq> HealthStatusRepairTriggered \<and>
    (Type ?ev = EventTypeFileCorrupted \<or> Type ?ev = EventTypeCheckFailed) \<and>
    RetryCount ?fh2 \<ge> int64 (MaxRetries ?fh2 - 1)"
    by (simp add: NewHealthWorker_def store_of_def find_row_def watched_def int64_def)
  have e: "FilePath (watched ''/m/x.mkv'' None 3 3) = ''/m/x.mkv''"
          "EventFilePath ?ev = ''/m/x.mkv''"
    by (simp_all add: watched_def)
  note A = library_path_missing[of ?hw "watched ''/m/x.mkv'' None 3 3" ?fh "[]" ?env,
             THEN conjunct1, THEN mp, OF a, unfolded e]
  note B = library_path_missing[of ?hw2 _ ?fh2 _ ?env2 ?ev,
             THEN conjunct2, THEN mp, OF b, unfolded e]
  have "fst (processRepairNotification ?env [] (watched ''/m/x.mkv'' None 3 3) ?hw) = Inr ()"
    by (rule A[THEN conjunct2, THEN conjunct1])
  moreover have "map_option RepairRetryCount (find_row ''/m/x.mkv''
     (rows (healthRepo (snd (processRepairNotification ?env []
        (watched ''/m/x.mkv'' None 3 3) ?hw))))) = Some 1"
    by (simp only: A[THEN conjunct2, THEN conjunct2, THEN conjunct2], simp add: watched_def)
  moreover have "map_option Status (find_row ''/m/x.mkv''
     (rows (healthRepo (snd (processRepairNotification ?env []
        (watched ''/m/x.mkv'' None 3 3) ?hw))))) = Some HealthStatusRepairTriggered"
    by (simp only: A[THEN conjunct2, THEN conjunct2, THEN conjunct2], simp add: watched_def)
  moreover have "fst (handleHealthCheckResult ?env2 ?ev ?hw2) =
     Inl (Wrapped ''failed to trigger repair'' (NoLibraryPath ''/m/x.mkv''))"
    by (rule B[THEN conjunct1])
  moreover have "map_option counters (find_row ''/m/x.mkv''
     (rows (healthRepo (snd (handleHealthCheckResult ?env2 ?ev ?hw2))))) = Some (3, 3, 0, 2)"
    by (simp only: B[THEN conjunct2, THEN conjunct2], simp add: watched_def counters_def)
  moreover have "map_option LastError (find_row ''/m/x.mkv''
     (rows (healthRepo (snd (handleHealthCheckResult ?env2 ?ev ?hw2))))) =
       Some (Some ''segments missing'')"
    by (simp only: B[THEN conjunct2, THEN conjunct2], simp add: watched_def)
  ultimately show ?thesis by (intro conjI)
qed

text \<open>
  Scenario S3 run on the code: the record of S2 without a library path. In the third
  cycle the handler enters the repair procedure, which fails for want of a library path;
  the handler returns that error to its caller, so the repair retry count is still zero
  and \<open>last_error\<close> is the probe's message. And a repair that is not retried: a record
  in RepairTriggered with a repair bound of 1 and no library path has its one attempt
  in the first cycle; its repair retry count then equals the bound, so a cycle long
  after its schedule finds it in neither batch.
\<close>

theorem escalation_without_library_path_counterexample:
  "map Status (rows (healthRepo (run (steady EventTypeFileCorrupted (Some ''segments missing'') 500)
      [] [TickerFired 5000, TickerFired 200000, TickerFired 1000000]
      (NewHealthWorker (store_of [watched ''/m/x.mkv'' None 0 3]) default_config)))) =
     [HealthStatusCorrupted] \<and>
   map counters (rows (healthRepo (run (steady EventTypeFileCorrupted (Some ''segments missing'') 500)
      [] [TickerFired 5000, TickerFired 200000, TickerFired 1000000]
      (NewHealthWorker (store_of [watched ''/m/x.mkv'' None 0 3]) default_config)))) =
     [(3, 3, 0, 2)] \<and>
   map LastError (rows (healthRepo (run (steady EventTypeFileCorrupted (Some ''segments missing'') 500)
      [] [TickerFired 5000, TickerFired 200000, TickerFired 1000000]
      (NewHealthWorker (store_of [watched ''/m/x.mkv'' None 0 3]) default_config)))) =
     [Some ''segments missing''] \<and>
   repair_log (run (steady EventTypeFileCorrupted (Some ''segments missing'') 500)
      [] [TickerFired 5000, TickerFired 200000, TickerFired 1000000]
      (NewHealthWorker (store_of [watched ''/m/x.mkv'' None 0 3]) default_config)) =
     [''/m/x.mkv''] \<and>
   probe_calls (run (steady EventTypeFileCorrupted (Some ''segments missing'') 500)
      [] [TickerFired 5000, TickerFired 200000, TickerFired 1000000]
      (NewHealthWorker (store_of [watched ''/m/x.mkv'' None 0 3]) default_config)) =
     [''/m/x.mkv'', ''/m/x.mkv'', ''/m/x.mkv''] \<and>
   repair_log (run (steady EventTypeFileCorrupted None 500) []
      [TickerFired 5000, TickerFired 100000000]
      (NewHealthWorker (store_of [(watched ''/m/x.mkv'' None 3 3)
          \<lparr>Status := HealthStatusRepairTriggered, MaxRepairRetries := 1\<rparr>]) default_config)) =
     [''/m/x.mkv''] \<and>
   probe_calls (run (steady EventTypeFileCorrupted None 500) []
      [TickerFired 5000, TickerFired 100000000]
      (NewHealthWorker (store_of [(watched ''/m/x.mkv'' None 3 3)
          \<lparr>Status := HealthStatusRepairTriggered, MaxRepairRetries := 1\<rparr>]) default_config)) =
     [] \<and>
   map counters (rows (healthRepo (run (steady EventTypeFileCorrupted None 500) []
      [TickerFired 5000, TickerFired 100000000]
      (NewHealthWorker (store_of [(watched ''/m/x.mkv'' None 3 3)
          \<lparr>Status := HealthStatusRepairTriggered, MaxRepairRetries := 1\<rparr>]) default_config)))) =
     [(3, 3, 1, 1)] \<and>
   map ScheduledCheckAt (rows (healthRepo (run (steady EventTypeFileCorrupted None 500) []
      [TickerFired 5000, TickerFired 100000000]
      (NewHealthWorker (store_of [(watched ''/m/x.mkv'' None 3 3)
          \<lparr>Status := HealthStatusRepairTriggered, MaxRepairRetries := 1\<rparr>]) default_config)))) =
     [Some 125000] \<and>
   TotalRunsCompleted (stats (run (steady EventTypeFileCorrupted None 500) []
      [TickerFired 5000, TickerFired 100000000]
      (NewHealthWorker (store_of [(watched ''/m/x.mkv'' None 3 3)
          \<lparr>Status := HealthStatusRepairTriggered, MaxRepairRetries := 1\<rparr>]) default_config))) = 2"
  by code_simp

text \<open>
  When the rescanner accepts the request, the repair procedure records the call and
  returns; the store is not written.
\<close>

lemma triggerFileRepair_after_rescan_success:
  assumes "outage (healthRepo hw) = None"
      and "find_row filePath (rows (healthRepo hw)) = Some healthRecord"
      and "LibraryPath healthRecord = Some libraryPath" and "libraryPath \<noteq> []"
      and "rescan env libraryPath = None"
  shows "triggerFileRepair env filePath errorMsg hw =
           (Inr (), hw\<lparr>repair_log := repair_log hw @ [filePath],
                       rescan_calls := rescan_calls hw @ [libraryPath]\<rparr>)"
  using assms by (simp add: triggerFileRepair_def GetFileHealth_def Let_def)

text \<open>
  C1. Scenario S2 run on the code: a pending record with \<open>max_retries = 3\<close> and library
  path \<open>/lib/x\<close>, a prober that always reports Corrupted, a rescanner that succeeds.
  Three cycles probe the file three times and call the rescanner once, with
  \<open>/lib/x\<close>; the repair procedure then returns without writing to the store, so the
  record is left as the third increment made it: status Corrupted, not RepairTriggered,
  \<open>last_error\<close> the probe's message, and the schedule the retry backoff (8 minutes
  after the check), not the repair recheck delay.
\<close>

theorem rescan_success_leaves_record_corrupted:
  "probe_calls (run (steady EventTypeFileCorrupted (Some ''segments missing'') 500)
      [] [TickerFired 5000, TickerFired 200000, TickerFired 1000000]
      (NewHealthWorker (store_of [watched ''/m/x.mkv'' (Some ''/lib/x'') 0 3]) default_config)) =
     [''/m/x.mkv'', ''/m/x.mkv'', ''/m/x.mkv''] \<and>
   rescan_calls (run (steady EventTypeFileCorrupted (Some ''segments missing'') 500)
      [] [TickerFired 5000, TickerFired 200000, TickerFired 1000000]
      (NewHealthWorker (store_of [watched ''/m/x.mkv'' (Some ''/lib/x'') 0 3]) default_config)) =
     [''/lib/x''] \<and>
   rows (healthRepo (run (steady EventTypeFileCorrupted (Some ''segments missing'') 500)
      [] [TickerFired 5000, TickerFired 200000, TickerFired 1000000]
      (NewHealthWorker (store_of [watched ''/m/x.mkv'' (Some ''/lib/x'') 0 3]) default_config))) =
     [(watched ''/m/x.mkv'' (Some ''/lib/x'') 3 3)
        \<lparr>Status := HealthStatusCorrupted, LastError := Some ''segments missing'',
         LastChecked := Some 1000500, ScheduledCheckAt := Some (1000500 + 480000)\<rparr>]"
  by code_simp

section \<open>Single checks and their cancellation\<close>

lemma CancelHealthCheck_frame:
  "probe_calls (snd (CancelHealthCheck p hw)) = probe_calls hw"
  "notify_calls (snd (CancelHealthCheck p hw)) = notify_calls hw"
  "stats (snd (CancelHealthCheck p hw)) = stats hw"
  "fetch_calls (snd (CancelHealthCheck p hw)) = fetch_calls hw"
  by (simp_all add: CancelHealthCheck_def Let_def split: option.splits sum.splits)

lemma concurrently_frame:
  "probe_calls (concurrently c hw) = probe_calls hw"
  "notify_calls (concurrently c hw) = notify_calls hw"
  "stats (concurrently c hw) = stats hw"
  "fetch_calls (concurrently c hw) = fetch_calls hw"
  by (cases c; simp add: CancelHealthCheck_frame)+

lemma fold_concurrently_frame:
  "probe_calls (fold concurrently cs hw) = probe_calls hw"
  "notify_calls (fold concurrently cs hw) = notify_calls hw"
  "stats (fold concurrently cs hw) = stats hw"
  "fetch_calls (fold concurrently cs hw) = fetch_calls hw"
  by (induction cs arbitrary: hw; simp add: concurrently_frame)+

lemma CheckFile_frame:
  "probe_calls (snd (CheckFile env c p hw)) = probe_calls hw @ [p]"
  "notify_calls (snd (CheckFile env c p hw)) = notify_calls hw"
  "stats (snd (CheckFile env c p hw)) = stats hw"
  "fetch_calls (snd (CheckFile env c p hw)) = fetch_calls hw"
  by (simp_all add: CheckFile_def Let_def fold_concurrently_frame)

lemma triggerFileRepair_frame:
  "probe_calls (snd (triggerFileRepair env p m hw)) = probe_calls hw"
  "notify_calls (snd (triggerFileRepair env p m hw)) = notify_calls hw"
  "stats (snd (triggerFileRepair env p m hw)) = stats hw"
  "fetch_calls (snd (triggerFileRepair env p m hw)) = fetch_calls hw"
  by (simp_all add: triggerFileRepair_def Let_def split: sum.splits option.splits)

lemma handleHealthCheckResult_frame:
  "probe_calls (snd (handleHealthCheckResult env event hw)) = probe_calls hw"
  "notify_calls (snd (handleHealthCheckResult env event hw)) = notify_calls hw"
  "stats (snd (handleHealthCheckResult env event hw)) = stats hw"
  "fetch_calls (snd (handleHealthCheckResult env event hw)) = fetch_calls hw"
  by (simp_all add: handleHealthCheckResult_def Let_def snd_case_sum_pair
        triggerFileRepair_frame split: sum.splits option.splits)

lemma performDirectCheck_cancelled_in_flight:
  assumes "\<not> ctx_done hw (next_handle hw # ctx)"
      and "ctx_done (probing env ctx p hw) (next_handle hw # ctx)"
  shows "performDirectCheck env ctx p hw =
           (Inl ContextCanceled,
            (probing env ctx p hw)
              \<lparr>activeChecks := (activeChecks (probing env ctx p hw))(p := None),
               cancelled := insert (next_handle hw) (cancelled (probing env ctx p hw))\<rparr>)"
proof -
  let ?hw1 = "hw\<lparr>next_handle := Suc (next_handle hw),
                 activeChecks := (activeChecks hw)(p \<mapsto> next_handle hw)\<rparr>"
  have a: "\<not> ctx_done ?hw1 (next_handle hw # ctx)"
    using assms(1) by (simp add: ctx_done_def)
  obtain ev hw2 where c: "CheckFile env (next_handle hw # ctx) p ?hw1 = (ev, hw2)"
    by (cases "CheckFile env (next_handle hw # ctx) p ?hw1")
  then have d: "probing env ctx p hw = hw2" by (simp add: probing_def)
  show ?thesis
    using a assms(2) unfolding d
    by (simp add: performDirectCheck_def Let_def c)
qed

text \<open>
  C2, as amended. A check of a path that already has an entry in the registry of active
  checks is not rejected: the entry is overwritten by the new cancel handle, so the call
  does exactly what it does on a registry without that entry; it invokes the probe
  unless its context is already cancelled, and when it returns the path has no entry.
\<close>

theorem check_overwrites_registry_entry:
  "performDirectCheck env ctx filePath (hw\<lparr>activeChecks := (activeChecks hw)(filePath \<mapsto> h)\<rparr>) =
     performDirectCheck env ctx filePath (hw\<lparr>activeChecks := (activeChecks hw)(filePath := None)\<rparr>) \<and>
   activeChecks (snd (performDirectCheck env ctx filePath hw)) filePath = None \<and>
   (\<not> ctx_done hw (next_handle hw # ctx) \<longrightarrow>
      probe_calls (snd (performDirectCheck env ctx filePath hw)) = probe_calls hw @ [filePath])"
proof (intro conjI impI)
  show "performDirectCheck env ctx filePath
          (hw\<lparr>activeChecks := (activeChecks hw)(filePath \<mapsto> h)\<rparr>) =
        performDirectCheck env ctx filePath
          (hw\<lparr>activeChecks := (activeChecks hw)(filePath := None)\<rparr>)"
    by (simp add: performDirectCheck_def)
next
  show "activeChecks (snd (performDirectCheck env ctx filePath hw)) filePath = None"
    by (simp add: performDirectCheck_def Let_def split: prod.splits)
next
  assume live: "\<not> ctx_done hw (next_handle hw # ctx)"
  let ?hw1 = "hw\<lparr>next_handle := Suc (next_handle hw),
                 activeChecks := (activeChecks hw)(filePath \<mapsto> next_handle hw)\<rparr>"
  have a: "\<not> ctx_done ?hw1 (next_handle hw # ctx)"
    using live by (simp add: ctx_done_def)
  obtain ev hw2 where c: "CheckFile env (next_handle hw # ctx) filePath ?hw1 = (ev, hw2)"
    by (cases "CheckFile env (next_handle hw # ctx) filePath ?hw1")
  have p2: "probe_calls hw2 = probe_calls hw @ [filePath]"
    using CheckFile_frame(1)[of env "next_handle hw # ctx" filePath ?hw1] c by simp
  obtain res hw3 where h: "handleHealthCheckResult env ev hw2 = (res, hw3)"
    by (cases "handleHealthCheckResult env ev hw2")
  have p3: "probe_calls hw3 = probe_calls hw2"
    using handleHealthCheckResult_frame(1)[of env ev hw2] h by simp
  show "probe_calls (snd (performDirectCheck env ctx filePath hw)) =
          probe_calls hw @ [filePath]"
    using a p2 p3
    by (cases res) (simp_all add: performDirectCheck_def Let_def c h updateStats_def)
qed

theorem check_overwrites_registry_entry_witness:
  "fst (performDirectCheck (steady EventTypeFileHealthy None 500) [] ''/m/x.mkv''
     ((NewHealthWorker (store_of [watched ''/m/x.mkv'' None 0 3]) default_config)
        \<lparr>activeChecks := [''/m/x.mkv'' \<mapsto> 0], next_handle := 1\<rparr>)) = Inr () \<and>
   probe_calls (snd (performDirectCheck (steady EventTypeFileHealthy None 500) [] ''/m/x.mkv''
     ((NewHealthWorker (store_of [watched ''/m/x.mkv'' None 0 3]) default_config)
        \<lparr>activeChecks := [''/m/x.mkv'' \<mapsto> 0], next_handle := 1\<rparr>))) = [''/m/x.mkv'']"
proof -
  let ?hw = "(NewHealthWorker (store_of [watched ''/m/x.mkv'' None 0 3]) default_config)
        \<lparr>activeChecks := [''/m/x.mkv'' \<mapsto> 0], next_handle := 1\<rparr>"
  let ?env = "steady EventTypeFileHealthy None 500"
  have live: "\<not> ctx_done ?hw (next_handle ?hw # [])"
    by (simp add: ctx_done_def NewHealthWorker_def)
  have "fst (performDirectCheck ?env [] ''/m/x.mkv'' ?hw) = Inr ()"
    by code_simp
  moreover have "probe_calls ?hw = []" by (simp add: NewHealthWorker_def)
  ultimately show ?thesis
    using check_overwrites_registry_entry[of ?env "[]" "''/m/x.mkv''" ?hw 0,
            THEN conjunct2, THEN conjunct2, THEN mp, OF live]
    by simp
qed

theorem second_check_not_rejected_counterexample:
  "activeChecks ((NewHealthWorker (store_of [watched ''/m/x.mkv'' None 0 3]) default_config)
        \<lparr>activeChecks := [''/m/x.mkv'' \<mapsto> 0], next_handle := 1\<rparr>) ''/m/x.mkv'' = Some 0 \<and>
   fst (performDirectCheck (steady EventTypeFileHealthy None 500) [] ''/m/x.mkv''
     ((NewHealthWorker (store_of [watched ''/m/x.mkv'' None 0 3]) default_config)
        \<lparr>activeChecks := [''/m/x.mkv'' \<mapsto> 0], next_handle := 1\<rparr>)) = Inr () \<and>
   probe_calls (snd (performDirectCheck (steady EventTypeFileHealthy None 500) [] ''/m/x.mkv''
     ((NewHealthWorker (store_of [watched ''/m/x.mkv'' None 0 3]) default_config)
        \<lparr>activeChecks := [''/m/x.mkv'' \<mapsto> 0], next_handle := 1\<rparr>))) = [''/m/x.mkv''] \<and>
   map Status (rows (healthRepo (snd (performDirectCheck (steady EventTypeFileHealthy None 500) []
     ''/m/x.mkv''
     ((NewHealthWorker (store_of [watched ''/m/x.mkv'' None 0 3]) default_config)
        \<lparr>activeChecks := [''/m/x.mkv'' \<mapsto> 0], next_handle := 1\<rparr>))))) = [HealthStatusHealthy]"
  by code_simp

text \<open>
  C6. First, a check whose context is cancelled while its probe is in flight (not yet
  cancelled when the probe starts, cancelled when it returns, whatever the cause):
  the check fails with the context's cancellation error, the store is exactly as it was
  when the probe returned, and neither the notifier call list nor the statistics have
  changed, so the probe's result is discarded. Second, the cancel operator on a path with
  a registry entry and a record, the store answering: it invokes the cancel handle,
  removes the entry, and rewrites the record to Pending; retry counters and bounds stay
  as they were.
\<close>

theorem cancellation_in_flight:
  "(\<not> ctx_done hw (next_handle hw # ctx) \<and>
    ctx_done (probing env ctx filePath hw) (next_handle hw # ctx) \<longrightarrow>
      fst (performDirectCheck env ctx filePath hw) = Inl ContextCanceled \<and>
      healthRepo (snd (performDirectCheck env ctx filePath hw)) =
        healthRepo (probing env ctx filePath hw) \<and>
      notify_calls (snd (performDirectCheck env ctx filePath hw)) = notify_calls hw \<and>
      stats (snd (performDirectCheck env ctx filePath hw)) = stats hw \<and>
      activeChecks (snd (performDirectCheck env ctx filePath hw)) filePath = None) \<and>
   (activeChecks hw filePath = Some h \<and> outage (healthRepo hw) = None \<and>
    find_row filePath (rows (healthRepo hw)) = Some fh \<longrightarrow>
      fst (CancelHealthCheck filePath hw) = Inr () \<and>
      h \<in> cancelled (snd (CancelHealthCheck filePath hw)) \<and>
      activeChecks (snd (CancelHealthCheck filePath hw)) filePath = None \<and>
      find_row filePath (rows (healthRepo (snd (CancelHealthCheck filePath hw)))) =
        Some (fh\<lparr>Status := HealthStatusPending, LastError := None, SourceNzbPath := None,
                 ScheduledCheckAt := Some (clock hw)\<rparr>) \<and>
      map_option counters
        (find_row filePath (rows (healthRepo (snd (CancelHealthCheck filePath hw))))) =
        Some (counters fh))"
proof (intro conjI impI)
  assume a: "\<not> ctx_done hw (next_handle hw # ctx) \<and>
             ctx_done (probing env ctx filePath hw) (next_handle hw # ctx)"
  note r = performDirectCheck_cancelled_in_flight[OF conjunct1[OF a] conjunct2[OF a]]
  have f: "notify_calls (probing env ctx filePath hw) = notify_calls hw"
          "stats (probing env ctx filePath hw) = stats hw"
    by (simp_all add: probing_def CheckFile_frame)
  show "fst (performDirectCheck env ctx filePath hw) = Inl ContextCanceled"
    by (simp add: r)
  show "healthRepo (snd (performDirectCheck env ctx filePath hw)) =
          healthRepo (probing env ctx filePath hw)"
    by (simp add: r)
  show "notify_calls (snd (performDirectCheck env ctx filePath hw)) = notify_calls hw"
    by (simp add: r f)
  show "stats (snd (performDirectCheck env ctx filePath hw)) = stats hw"
    by (simp add: r f)
  show "activeChecks (snd (performDirectCheck env ctx filePath hw)) filePath = None"
    by (simp add: r)
next
  assume b: "activeChecks hw filePath = Some h \<and> outage (healthRepo hw) = None \<and>
             find_row filePath (rows (healthRepo hw)) = Some fh"
  then have c: "CancelHealthCheck filePath hw =
      (Inr (), hw\<lparr>cancelled := insert h (cancelled hw),
                  activeChecks := (activeChecks hw)(filePath := None),
                  healthRepo := (healthRepo hw)\<lparr>rows := update_row filePath
                     (rewritten HealthStatusPending None None (clock hw) False)
                     (rows (healthRepo hw))\<rparr>\<rparr>)"
    by (simp add: CancelHealthCheck_def UpdateFileHealth_def Let_def)
  show "fst (CancelHealthCheck filePath hw) = Inr ()" by (simp add: c)
  show "h \<in> cancelled (snd (CancelHealthCheck filePath hw))" by (simp add: c)
  show "activeChecks (snd (CancelHealthCheck filePath hw)) filePath = None" by (simp add: c)
  show "find_row filePath (rows (healthRepo (snd (CancelHealthCheck filePath hw)))) =
        Some (fh\<lparr>Status := HealthStatusPending, LastError := None, SourceNzbPath := None,
                 ScheduledCheckAt := Some (clock hw)\<rparr>)"
    using b by (simp add: c find_row_update_row rewritten_def)
  show "map_option counters
        (find_row filePath (rows (healthRepo (snd (CancelHealthCheck filePath hw))))) =
        Some (counters fh)"
    using b by (simp add: c find_row_update_row rewritten_def counters_def)
qed

theorem cancellation_in_flight_witness:
  "fst (performDirectCheck (cancelled_by_operator ''/m/x.mkv'') [] ''/m/x.mkv''
     (NewHealthWorker (store_of [(watched ''/m/x.mkv'' None 1 3)\<lparr>Status := HealthStatusChecking\<rparr>])
        default_config)) = Inl ContextCanceled \<and>
   notify_calls (snd (performDirectCheck (cancelled_by_operator ''/m/x.mkv'') [] ''/m/x.mkv''
     (NewHealthWorker (store_of [(watched ''/m/x.mkv'' None 1 3)\<lparr>Status := HealthStatusChecking\<rparr>])
        default_config))) = [] \<and>
   rows (healthRepo (snd (performDirectCheck (cancelled_by_operator ''/m/x.mkv'') [] ''/m/x.mkv''
     (NewHealthWorker (store_of [(watched ''/m/x.mkv'' None 1 3)\<lparr>Status := HealthStatusChecking\<rparr>])
        default_config)))) =
     [(watched ''/m/x.mkv'' None 1 3)\<lparr>ScheduledCheckAt := Some 30000\<rparr>] \<and>
   fst (CancelHealthCheck ''/m/x.mkv''
     ((NewHealthWorker (store_of [(watched ''/m/x.mkv'' None 1 3)\<lparr>Status := HealthStatusChecking\<rparr>])
        default_config)\<lparr>activeChecks := [''/m/x.mkv'' \<mapsto> 0]\<rparr>)) = Inr () \<and>
   map_option counters (find_row ''/m/x.mkv'' (rows (healthRepo (snd (CancelHealthCheck ''/m/x.mkv''
     ((NewHealthWorker (store_of [(watched ''/m/x.mkv'' None 1 3)\<lparr>Status := HealthStatusChecking\<rparr>])
        default_config)\<lparr>activeChecks := [''/m/x.mkv'' \<mapsto> 0]\<rparr>)))))) = Some (1, 3, 0, 2)"
proof -
  let ?p = "''/m/x.mkv''"
  let ?fh = "(watched ?p None 1 3)\<lparr>Status := HealthStatusChecking\<rparr>"
  let ?hw = "NewHealthWorker (store_of [?fh]) default_config"
  let ?w = "?hw\<lparr>activeChecks := [?p \<mapsto> 0]\<rparr>"
  let ?env = "cancelled_by_operator ?p"
  have a: "\<not> ctx_done ?hw (next_handle ?hw # []) \<and>
           ctx_done (probing ?env [] ?p ?hw) (next_handle ?hw # [])"
    by code_simp
  have b: "activeChecks ?w ?p = Some 0 \<and> outage (healthRepo ?w) = None \<and>
           find_row ?p (rows (healthRepo ?w)) = Some ?fh"
    by (simp add: NewHealthWorker_def store_of_def find_row_def watched_def)
  have c: "rows (healthRepo (probing ?env [] ?p ?hw)) =
             [(watched ?p None 1 3)\<lparr>ScheduledCheckAt := Some 30000\<rparr>]"
    by code_simp
  have d: "notify_calls ?hw = []" "counters ?fh = (1, 3, 0, 2)"
    by (simp_all add: NewHealthWorker_def counters_def watched_def)
  note A = cancellation_in_flight[of ?hw "[]" ?env ?p 0 ?fh, THEN conjunct1, THEN mp, OF a]
  note B = cancellation_in_flight[of ?w "[]" ?env ?p 0 ?fh, THEN conjunct2, THEN mp, OF b]
  have "fst (performDirectCheck ?env [] ?p ?hw) = Inl ContextCanceled"
    by (rule A[THEN conjunct1])
  moreover have "notify_calls (snd (performDirectCheck ?env [] ?p ?hw)) = []"
    using A[THEN conjunct2, THEN conjunct2, THEN conjunct1] by (simp only: d)
  moreover have "rows (healthRepo (snd (performDirectCheck ?env [] ?p ?hw))) =
                   [(watched ?p None 1 3)\<lparr>ScheduledCheckAt := Some 30000\<rparr>]"
    using A[THEN conjunct2, THEN conjunct1] by (simp only: c)
  moreover have "fst (CancelHealthCheck ?p ?w) = Inr ()"
    by (rule B[THEN conjunct1])
  moreover have "map_option counters
        (find_row ?p (rows (healthRepo (snd (CancelHealthCheck ?p ?w))))) = Some (1, 3, 0, 2)"
    using B[THEN conjunct2, THEN conjunct2, THEN conjunct2, THEN conjunct2]
    by (simp only: d)
  ultimately show ?thesis by (intro conjI)
qed

section \<open>Cycles\<close>













section \<open>The tick loop\<close>

text \<open>
  A cycle clears the cycle-in-flight flag on every way out, and the loop calls the cycle
  synchronously: a loop started with the flag clear takes every tick with the flag
  clear, and leaves it clear. The flag is set only while a cycle runs, where only
  another goroutine can observe it.
\<close>

lemma runHealthCheckCycle_clears_flag:
  "\<not> cycleRunning (snd (runHealthCheckCycle env ctx hw))"
  by (simp add: runHealthCheckCycle_def Let_def split: prod.splits)

lemma run_keeps_flag_clear:
  "\<not> cycleRunning hw \<Longrightarrow> \<not> cycleRunning (run env ctx evs hw)"
proof (induction env ctx evs hw rule: run.induct)
  case (4 env ctx t evs hw0)
  let ?hw = "hw0\<lparr>clock := max (clock hw0) t\<rparr>"
  have nf: "\<not> cycleRunning ?hw" using "4.prems" by simp
  obtain res hw1 where c: "runHealthCheckCycle env ctx ?hw = (res, hw1)"
    by (cases "runHealthCheckCycle env ctx ?hw")
  have f1: "\<not> cycleRunning hw1"
    using runHealthCheckCycle_clears_flag[of env ctx ?hw] c by simp
  show ?case
  proof (cases res)
    case (Inl err)
    show ?thesis
    proof (cases "err = NilPointerPanic")
      case True
      with nf c Inl f1 show ?thesis by simp
    next
      case False
      have "\<not> cycleRunning (run env ctx evs (updateStats (cycle_failed err) hw1))"
        using "4.IH"(2)[OF refl nf c[symmetric] Inl False] f1
        by (simp add: updateStats_def)
      with nf c Inl False show ?thesis by simp
    qed
  next
    case (Inr u)
    have "\<not> cycleRunning (run env ctx evs hw1)"
      using "4.IH"(3)[OF refl nf c[symmetric] Inr] f1 by simp
    with nf c Inr show ?thesis by simp
  qed
qed simp_all

end
